theory Spec2Isabelle
  imports Main
begin

section \<open>Strings\<close>

text \<open>
  The source is TypeScript (\<^verbatim>\<open>src/features/suggestion-provider/DateParser.ts\<close>).
  A string is a \<^typ>\<open>string\<close> of ASCII characters: \<^verbatim>\<open>toLowerCase\<close> and
  \<^verbatim>\<open>toUpperCase\<close> act on the letters A to Z, the class \<^verbatim>\<open>\d\<close> is 0 to 9,
  and the white space of \<^verbatim>\<open>\s\<close> and of \<^verbatim>\<open>trim\<close> is space, tab, line feed,
  vertical tab, form feed and carriage return.
\<close>

definition is_digit :: "char \<Rightarrow> bool" where
  "is_digit c = (c \<in> set ''0123456789'')"

definition is_space :: "char \<Rightarrow> bool" where
  "is_space c = (c \<in> set [CHR '' '', CHR 0x09, CHR 0x0A, CHR 0x0B, CHR 0x0C, CHR 0x0D])"

definition charToLower :: "char \<Rightarrow> char" where
  "charToLower c =
     (case map_of (zip ''ABCDEFGHIJKLMNOPQRSTUVWXYZ'' ''abcdefghijklmnopqrstuvwxyz'') c of
        Some d \<Rightarrow> d
      | None \<Rightarrow> c)"

definition charToUpper :: "char \<Rightarrow> char" where
  "charToUpper c =
     (case map_of (zip ''abcdefghijklmnopqrstuvwxyz'' ''ABCDEFGHIJKLMNOPQRSTUVWXYZ'') c of
        Some d \<Rightarrow> d
      | None \<Rightarrow> c)"

definition toLowerCase :: "string \<Rightarrow> string" where
  "toLowerCase s = map charToLower s"

definition trimStart :: "string \<Rightarrow> string" where
  "trimStart s = dropWhile is_space s"

definition trimEnd :: "string \<Rightarrow> string" where
  "trimEnd s = rev (dropWhile is_space (rev s))"

definition trim :: "string \<Rightarrow> string" where
  "trim s = trimEnd (trimStart s)"

text \<open>\<^verbatim>\<open>s.startsWith(p)\<close>\<close>

definition startsWith :: "string \<Rightarrow> string \<Rightarrow> bool" where
  "startsWith s p = (take (length p) s = p)"

text \<open>\<^verbatim>\<open>s.includes(sub)\<close>: \<open>sub\<close> occurs somewhere in \<open>s\<close>.\<close>

fun str_includes :: "string \<Rightarrow> string \<Rightarrow> bool" where
  "str_includes [] sub = (sub = [])"
| "str_includes (c # cs) sub = (startsWith (c # cs) sub \<or> str_includes cs sub)"

text \<open>\<^verbatim>\<open>s.indexOf(sub)\<close>: the first position of \<open>sub\<close> in \<open>s\<close>, or -1.\<close>

fun indexOf_from :: "nat \<Rightarrow> string \<Rightarrow> string \<Rightarrow> int" where
  "indexOf_from i [] sub = (if sub = [] then int i else - 1)"
| "indexOf_from i (c # cs) sub =
     (if startsWith (c # cs) sub then int i else indexOf_from (Suc i) cs sub)"

definition indexOf :: "string \<Rightarrow> string \<Rightarrow> int" where
  "indexOf s sub = indexOf_from 0 s sub"

text \<open>\<^verbatim>\<open>s.substring(0, n)\<close>: a negative end counts as 0.\<close>

definition substring0 :: "string \<Rightarrow> int \<Rightarrow> string" where
  "substring0 s n = take (nat n) s"

text \<open>
  \<^verbatim>\<open>s.split(/\s+/)\<close>: the pieces between maximal runs of white space. The empty string
  gives one empty piece; leading or trailing white space gives an empty first or last piece.
\<close>

fun split_ws :: "string \<Rightarrow> string list" where
  "split_ws [] = [[]]"
| "split_ws (c # cs) =
     (if is_space c then
        (case cs of
           [] \<Rightarrow> [] # split_ws cs
         | d # _ \<Rightarrow> if is_space d then split_ws cs else [] # split_ws cs)
      else
        (case split_ws cs of
           [] \<Rightarrow> [[c]]
         | t # ts \<Rightarrow> (c # t) # ts))"

text \<open>\<^verbatim>\<open>s.split(' ')[0]\<close>: the text before the first space character.\<close>

definition split_space_first :: "string \<Rightarrow> string" where
  "split_space_first s = takeWhile (\<lambda>c. c \<noteq> CHR '' '') s"

text \<open>\<^verbatim>\<open>capitalizeFirstLetter\<close> (lines 23-26).\<close>

definition capitalizeFirstLetter :: "string \<Rightarrow> string" where
  "capitalizeFirstLetter text =
     (case text of
        [] \<Rightarrow> text
      | c # cs \<Rightarrow> charToUpper c # cs)"

subsection \<open>The regular expressions of the source\<close>

text \<open>
  Each regular expression literal of the source is one function. None of them has the
  \<^verbatim>\<open>m\<close> flag, so \<^verbatim>\<open>^\<close> and \<^verbatim>\<open>$\<close> are the two ends of the input. A successful
  \<^verbatim>\<open>match\<close> is the pair of the matched text (index 0) and the one captured group
  (index 1); every expression matched with \<^verbatim>\<open>match\<close> has exactly one group, which
  takes part in every match.
\<close>

type_synonym RegExpMatchArray = "string \<times> string"

text \<open>\<^verbatim>\<open>/^\d{4}$/\<close>\<close>

definition re_year4 :: "string \<Rightarrow> bool" where
  "re_year4 s = (length s = 4 \<and> list_all is_digit s)"

text \<open>\<^verbatim>\<open>/^\d/\<close>\<close>

definition re_starts_digit :: "string \<Rightarrow> bool" where
  "re_starts_digit s = (case s of [] \<Rightarrow> False | c # _ \<Rightarrow> is_digit c)"

text \<open>\<^verbatim>\<open>/\d$/\<close>\<close>

definition re_ends_digit :: "string \<Rightarrow> bool" where
  "re_ends_digit s = (case rev s of [] \<Rightarrow> False | c # _ \<Rightarrow> is_digit c)"

text \<open>\<^verbatim>\<open>/^\d+$/\<close>\<close>

definition re_all_digits :: "string \<Rightarrow> bool" where
  "re_all_digits s = (s \<noteq> [] \<and> list_all is_digit s)"

text \<open>\<^verbatim>\<open>/^in \d+$/\<close> (case sensitive, one space character)\<close>

definition re_in_digits :: "string \<Rightarrow> bool" where
  "re_in_digits s = (startsWith s ''in '' \<and> re_all_digits (drop 3 s))"

text \<open>
  An alternation of literals under the \<^verbatim>\<open>i\<close> flag, anchored at the start: the first
  alternative, in the order written, that the input begins with, compared without case.
  The result is the input's own text.
\<close>

definition re_alt_i :: "string list \<Rightarrow> string \<Rightarrow> string option" where
  "re_alt_i alts s =
     (case find (\<lambda>a. toLowerCase (take (length a) s) = a) alts of
        None \<Rightarrow> None
      | Some a \<Rightarrow> Some (take (length a) s))"

text \<open>
  \<^verbatim>\<open>/^(?:in\s*)?(\d+)/i\<close> (line 38). The optional group is tried first: after
  \<^verbatim>\<open>in\<close> and all the white space that follows, at least one digit must come; the
  digits are taken greedily. When the group does not match, the digits must stand at the
  start of the input.
\<close>

definition re_numeric :: "string \<Rightarrow> RegExpMatchArray option" where
  "re_numeric s =
     (let with_in =
        (if toLowerCase (take 2 s) = ''in'' then
           (let ws = takeWhile is_space (drop 2 s);
                ds = takeWhile is_digit (dropWhile is_space (drop 2 s))
            in if ds = [] then None else Some (take 2 s @ ws @ ds, ds))
         else None)
      in case with_in of
           Some m \<Rightarrow> Some m
         | None \<Rightarrow>
             (let ds = takeWhile is_digit s
              in if ds = [] then None else Some (ds, ds)))"

text \<open>\<^verbatim>\<open>/^(this|next|last)\s?/i\<close> (line 66)\<close>

definition re_qualifier :: "string \<Rightarrow> RegExpMatchArray option" where
  "re_qualifier s =
     (case re_alt_i [''this'', ''next'', ''last''] s of
        None \<Rightarrow> None
      | Some kw \<Rightarrow>
          (case drop (length kw) s of
             [] \<Rightarrow> Some (kw, kw)
           | c # _ \<Rightarrow> if is_space c then Some (kw @ [c], kw) else Some (kw, kw)))"

text \<open>\<^verbatim>\<open>/^(jan|feb|mar|apr|may|jun|jul|aug|sep|oct|nov|dec)/i\<close> (line 138)\<close>

definition re_month :: "string \<Rightarrow> RegExpMatchArray option" where
  "re_month s =
     (case re_alt_i [''jan'', ''feb'', ''mar'', ''apr'', ''may'', ''jun'', ''jul'', ''aug'',
                     ''sep'', ''oct'', ''nov'', ''dec''] s of
        None \<Rightarrow> None
      | Some m \<Rightarrow> Some (m, m))"

text \<open>\<^verbatim>\<open>/^(to|ye|tom)/i\<close> (line 148)\<close>

definition re_relative :: "string \<Rightarrow> RegExpMatchArray option" where
  "re_relative s =
     (case re_alt_i [''to'', ''ye'', ''tom''] s of
        None \<Rightarrow> None
      | Some m \<Rightarrow> Some (m, m))"

text \<open>\<^verbatim>\<open>/^in \d+\s+(days?|weeks?|years?)$/i\<close> (line 457)\<close>

definition re_in_n_units :: "string \<Rightarrow> bool" where
  "re_in_n_units s =
     (toLowerCase (take 3 s) = ''in '' \<and>
      (let ds = takeWhile is_digit (drop 3 s);
           r1 = dropWhile is_digit (drop 3 s);
           ws = takeWhile is_space r1;
           r2 = dropWhile is_space r1
       in ds \<noteq> [] \<and> ws \<noteq> [] \<and>
          toLowerCase r2 \<in> set [''day'', ''days'', ''week'', ''weeks'', ''year'', ''years'']))"

text \<open>\<^verbatim>\<open>/^(next|last|this)\s+(day|week|month|year)$/i\<close> (line 458)\<close>

definition re_qualified_unit :: "string \<Rightarrow> bool" where
  "re_qualified_unit s =
     (case re_alt_i [''next'', ''last'', ''this''] s of
        None \<Rightarrow> False
      | Some kw \<Rightarrow>
          (let ws = takeWhile is_space (drop (length kw) s);
               r = dropWhile is_space (drop (length kw) s)
           in ws \<noteq> [] \<and> toLowerCase r \<in> set [''day'', ''week'', ''month'', ''year'']))"

section \<open>Data\<close>

text \<open>
  The tables imported from \<^verbatim>\<open>@/constants\<close> (line 3) are parameters of the model:
  every function that reads one takes the record \<open>K\<close>.
\<close>

record common_strings =
  WEEK :: string
  MONTH :: string
  YEAR :: string
  TODAY :: string
  TOMORROW :: string
  YESTERDAY :: string

record constants =
  COMMON_STRINGS :: common_strings
  DAYS_OF_THE_WEEK :: "string list"
  MONTHS_OF_THE_YEAR :: "string list"
  TIME_OF_DAY_PHRASES :: "string list"
  HOLIDAY_ALIASES :: "(string \<times> string) list"

text \<open>
  A \<^verbatim>\<open>Date\<close> is its time value in milliseconds, taken in local time; an invalid
  \<^verbatim>\<open>Date\<close> (time value NaN) is outside the model.
\<close>

type_synonym Date = int

text \<open>\<^verbatim>\<open>interface HolidayData\<close> (lines 6-9)\<close>

record HolidayData =
  name :: string
  date :: string

text \<open>The values of \<^verbatim>\<open>holidayCache\<close> (line 19): \<^verbatim>\<open>{ name, dates }\<close>.\<close>

record HolidayEntry =
  entry_name :: string
  dates :: "Date list"

text \<open>An instance of the library class \<^verbatim>\<open>Holidays\<close>, known by the locale it was made for.\<close>

datatype Holidays = Holidays string

text \<open>
  The static fields of \<^verbatim>\<open>DateParser\<close> (lines 18-21). The cache is a JavaScript
  \<^verbatim>\<open>Map\<close>, which iterates in insertion order: an association list.
\<close>

record DateParser =
  holidaysInstance :: "Holidays option"
  holidayCache :: "(string \<times> HolidayEntry) list"
  currentYear :: int
  currentLocale :: string

text \<open>
  The state when the class is loaded; \<open>y\<close> is \<^verbatim>\<open>new Date().getFullYear()\<close> at that
  moment.
\<close>

definition initial_state :: "int \<Rightarrow> DateParser" where
  "initial_state y =
     \<lparr> holidaysInstance = None, holidayCache = [], currentYear = y, currentLocale = ''US'' \<rparr>"

text \<open>
  The test \<^verbatim>\<open>!this.holidaysInstance || !this.currentLocale\<close> (lines 230, 237, 379, 560,
  593): an object is truthy, the empty string is falsy.
\<close>

definition holidays_disabled :: "DateParser \<Rightarrow> bool" where
  "holidays_disabled s = (holidaysInstance s = None \<or> currentLocale s = [])"

text \<open>
  What the program calls outside itself. A call that throws returns \<open>None\<close>.
  \<^item> \<open>Holidays_new\<close>: \<^verbatim>\<open>new Holidays(locale)\<close>;
  \<^item> \<open>getHolidays\<close>: \<^verbatim>\<open>instance.getHolidays(year)\<close>;
  \<^item> \<open>Date_of_string\<close>: \<^verbatim>\<open>new Date(holiday.date)\<close>;
  \<^item> \<open>chrono_parse\<close>: \<^verbatim>\<open>chrono.parse(text)\<close>;
  \<^item> \<open>chrono_parseDate\<close>: \<^verbatim>\<open>chrono.parseDate(text)\<close>.
\<close>

text \<open>
  One result of \<^verbatim>\<open>chrono.parse\<close>: its \<^verbatim>\<open>start\<close> component, when present, answers
  \<^verbatim>\<open>isCertain(field)\<close>.
\<close>

record ParsedResult =
  start :: "(string \<Rightarrow> bool) option"

record environment =
  Holidays_new :: "string \<Rightarrow> Holidays option"
  getHolidays :: "Holidays \<Rightarrow> int \<Rightarrow> HolidayData list option"
  Date_of_string :: "string \<Rightarrow> Date"
  chrono_parse :: "string \<Rightarrow> ParsedResult list"
  chrono_parseDate :: "string \<Rightarrow> Date option"

subsection \<open>The operations of \<^verbatim>\<open>Map\<close> and \<^verbatim>\<open>Set\<close>\<close>

text \<open>\<^verbatim>\<open>map.set(k, v)\<close>: an existing key keeps its place, a new key goes last.\<close>

fun Map_set :: "'k \<Rightarrow> 'v \<Rightarrow> ('k \<times> 'v) list \<Rightarrow> ('k \<times> 'v) list" where
  "Map_set k v [] = [(k, v)]"
| "Map_set k v (p # ps) = (if fst p = k then (k, v) # ps else p # Map_set k v ps)"

text \<open>\<^verbatim>\<open>set.add(x)\<close>: a new element goes last, a known one changes nothing.\<close>

definition Set_add :: "'a \<Rightarrow> 'a list \<Rightarrow> 'a list" where
  "Set_add x xs = (if x \<in> set xs then xs else xs @ [x])"

section \<open>The suggestion generators\<close>

text \<open>
  An entry of \<^verbatim>\<open>suggestionGenerators\<close> (lines 29-33). The pattern is a regular
  expression or a predicate. \<open>generate\<close> returns \<open>None\<close> when the source's function
  throws.
\<close>

datatype matcher =
  RegExp "string \<Rightarrow> RegExpMatchArray option"
| Predicate "string \<Rightarrow> bool"

record generator =
  pattern :: matcher
  generate :: "string \<Rightarrow> RegExpMatchArray option \<Rightarrow> string list option"
  priority :: int

text \<open>Priority 100 (lines 37-63): a number, with or without \<^verbatim>\<open>in\<close> before it.\<close>

definition numeric_units :: "string list" where
  "numeric_units = ['' days'', '' weeks'', '' months'', '' hours'', '' minutes'', '' years'']"

definition numeric_generate :: "string \<Rightarrow> RegExpMatchArray option \<Rightarrow> string list option" where
  "numeric_generate fullInput matchDetails =
     (let trimmed = trim fullInput in
      if re_year4 trimmed then Some []
      else
        (case matchDetails of
           None \<Rightarrow> Some []
         | Some (matchedString, num) \<Rightarrow>
             (let prefix =
                (if startsWith (toLowerCase matchedString) ''in''
                 then substring0 matchedString (indexOf (toLowerCase matchedString) num)
                 else ''in '');
                  baseSuggestions = map (\<lambda>u. prefix @ num @ u) numeric_units
              in Some (map capitalizeFirstLetter baseSuggestions))))"

definition numeric_generator :: generator where
  "numeric_generator =
     \<lparr> pattern = RegExp re_numeric, generate = numeric_generate, priority = 100 \<rparr>"

text \<open>Priority 90 (lines 65-99): \<^verbatim>\<open>this\<close>, \<^verbatim>\<open>next\<close>, \<^verbatim>\<open>last\<close>.\<close>

definition qualifier_generate ::
  "constants \<Rightarrow> string \<Rightarrow> RegExpMatchArray option \<Rightarrow> string list option" where
  "qualifier_generate K fullInput matchDetails =
     (case matchDetails of
        None \<Rightarrow> Some []
      | Some (m0, m1) \<Rightarrow>
          if m1 = [] then Some []
          else
            (let prefixKeyword = toLowerCase m1;
                 remainder = trimStart (toLowerCase (drop (length m0) fullInput));
                 timeUnits = [WEEK (COMMON_STRINGS K), MONTH (COMMON_STRINGS K),
                              YEAR (COMMON_STRINGS K)] @ DAYS_OF_THE_WEEK K;
                 generatedSuggestions =
                   (if remainder \<noteq> [] then
                      map (\<lambda>unit. prefixKeyword @ '' '' @ unit)
                        (filter (\<lambda>unit. startsWith (toLowerCase unit) remainder) timeUnits)
                    else map (\<lambda>unit. prefixKeyword @ '' '' @ unit) timeUnits)
             in Some (map capitalizeFirstLetter generatedSuggestions)))"

definition qualifier_generator :: "constants \<Rightarrow> generator" where
  "qualifier_generator K =
     \<lparr> pattern = RegExp re_qualifier, generate = qualifier_generate K, priority = 90 \<rparr>"

text \<open>Priority 85 (lines 101-111): the start of a weekday's name.\<close>

definition weekday_pattern :: "constants \<Rightarrow> string \<Rightarrow> bool" where
  "weekday_pattern K input =
     (let lower = toLowerCase (trim input)
      in length lower > 0 \<and>
         list_ex (\<lambda>d. startsWith (toLowerCase d) lower) (DAYS_OF_THE_WEEK K))"

definition weekday_generate ::
  "constants \<Rightarrow> string \<Rightarrow> RegExpMatchArray option \<Rightarrow> string list option" where
  "weekday_generate K input matchDetails =
     (let lower = toLowerCase (trim input)
      in Some (filter (\<lambda>d. startsWith (toLowerCase d) lower) (DAYS_OF_THE_WEEK K)))"

definition weekday_generator :: "constants \<Rightarrow> generator" where
  "weekday_generator K =
     \<lparr> pattern = Predicate (weekday_pattern K), generate = weekday_generate K, priority = 85 \<rparr>"

text \<open>
  Priority 82 (lines 113-135): a weekday and a week qualifier. \<^verbatim>\<open>parts[1]\<close> of a
  one-piece input is \<^verbatim>\<open>undefined\<close>, which \<^verbatim>\<open>startsWith\<close> reads as the text
  \<^verbatim>\<open>undefined\<close>.
\<close>

definition week_qualifiers :: "string list" where
  "week_qualifiers = [''this'', ''next'', ''last'']"

definition part1 :: "string list \<Rightarrow> string" where
  "part1 parts = (case parts of _ # p # _ \<Rightarrow> p | _ \<Rightarrow> ''undefined'')"

definition part0 :: "string list \<Rightarrow> string" where
  "part0 parts = (case parts of p # _ \<Rightarrow> p | [] \<Rightarrow> ''undefined'')"

definition weekday_week_pattern :: "constants \<Rightarrow> string \<Rightarrow> bool" where
  "weekday_week_pattern K input =
     (let parts = split_ws (toLowerCase (trim input))
      in length parts \<ge> 2 \<and>
         list_ex (\<lambda>d. startsWith (toLowerCase d) (part0 parts)) (DAYS_OF_THE_WEEK K) \<and>
         list_ex (\<lambda>q. startsWith q (part1 parts)) week_qualifiers)"

definition weekday_week_generate ::
  "constants \<Rightarrow> string \<Rightarrow> RegExpMatchArray option \<Rightarrow> string list option" where
  "weekday_week_generate K input matchDetails =
     (let parts = split_ws (toLowerCase (trim input))
      in Some (concat (map (\<lambda>day.
           if startsWith (toLowerCase day) (part0 parts) then
             concat (map (\<lambda>q.
               if startsWith q (part1 parts) then
                 (let phrase = day @ '' '' @ q @ '' week''
                  in if startsWith (toLowerCase phrase) (toLowerCase (trim input))
                     then [phrase] else [])
               else []) week_qualifiers)
           else []) (DAYS_OF_THE_WEEK K))))"

definition weekday_week_generator :: "constants \<Rightarrow> generator" where
  "weekday_week_generator K =
     \<lparr> pattern = Predicate (weekday_week_pattern K), generate = weekday_week_generate K,
       priority = 82 \<rparr>"

text \<open>Priority 80 (lines 137-145): the start of a month's name.\<close>

definition month_generate ::
  "constants \<Rightarrow> string \<Rightarrow> RegExpMatchArray option \<Rightarrow> string list option" where
  "month_generate K input matchDetails =
     (let lowerInput = toLowerCase input
      in Some (filter (\<lambda>month. startsWith (toLowerCase month) lowerInput)
                 (MONTHS_OF_THE_YEAR K)))"

definition month_generator :: "constants \<Rightarrow> generator" where
  "month_generator K =
     \<lparr> pattern = RegExp re_month, generate = month_generate K, priority = 80 \<rparr>"

text \<open>Priority 70 (lines 147-156): today, tomorrow, yesterday.\<close>

definition relative_generate ::
  "constants \<Rightarrow> string \<Rightarrow> RegExpMatchArray option \<Rightarrow> string list option" where
  "relative_generate K input matchDetails =
     (let lowerInput = toLowerCase input;
          options = [TODAY (COMMON_STRINGS K), TOMORROW (COMMON_STRINGS K),
                     YESTERDAY (COMMON_STRINGS K)]
      in Some (map capitalizeFirstLetter (filter (\<lambda>opt. startsWith opt lowerInput) options)))"

definition relative_generator :: "constants \<Rightarrow> generator" where
  "relative_generator K =
     \<lparr> pattern = RegExp re_relative, generate = relative_generate K, priority = 70 \<rparr>"

text \<open>
  Priority 65 (lines 158-172): a relative day and the start of a time of day. With fewer
  than two pieces \<^verbatim>\<open>parts[1].toLowerCase()\<close> throws a TypeError.
\<close>

definition day_time_pattern :: "string \<Rightarrow> bool" where
  "day_time_pattern input =
     (case split_ws (toLowerCase (trim input)) of
        [p0, p1] \<Rightarrow> p0 \<in> set [''today'', ''tomorrow'', ''yesterday''] \<and> length p1 > 0
      | _ \<Rightarrow> False)"

definition day_time_generate ::
  "constants \<Rightarrow> string \<Rightarrow> RegExpMatchArray option \<Rightarrow> string list option" where
  "day_time_generate K input matchDetails =
     (case split_ws (trim input) of
        day # p1 # _ \<Rightarrow>
          (let after = toLowerCase p1
           in Some (map (\<lambda>p. capitalizeFirstLetter day @ '' '' @ toLowerCase p)
                      (filter (\<lambda>p. startsWith (toLowerCase p) after) (TIME_OF_DAY_PHRASES K))))
      | _ \<Rightarrow> None)"

definition day_time_generator :: "constants \<Rightarrow> generator" where
  "day_time_generator K =
     \<lparr> pattern = Predicate day_time_pattern, generate = day_time_generate K, priority = 65 \<rparr>"

text \<open>Priority 60 (lines 174-185): the start of a time-of-day phrase.\<close>

definition time_of_day_pattern :: "constants \<Rightarrow> string \<Rightarrow> bool" where
  "time_of_day_pattern K input =
     (let lower = toLowerCase (trim input)
      in if length lower < 1 then False
         else list_ex (\<lambda>phrase. startsWith (toLowerCase phrase) lower) (TIME_OF_DAY_PHRASES K))"

definition time_of_day_generate ::
  "constants \<Rightarrow> string \<Rightarrow> RegExpMatchArray option \<Rightarrow> string list option" where
  "time_of_day_generate K input matchDetails =
     (let lower = toLowerCase (trim input)
      in Some (filter (\<lambda>phrase. startsWith (toLowerCase phrase) lower)
                 (TIME_OF_DAY_PHRASES K)))"

definition time_of_day_generator :: "constants \<Rightarrow> generator" where
  "time_of_day_generator K =
     \<lparr> pattern = Predicate (time_of_day_pattern K), generate = time_of_day_generate K,
       priority = 60 \<rparr>"

text \<open>Priority 55 (lines 187-204): the weekend.\<close>

definition weekend_pattern :: "string \<Rightarrow> bool" where
  "weekend_pattern input =
     (case split_ws (toLowerCase (trim input)) of
        [p0] \<Rightarrow> startsWith ''weekend'' p0 \<and> length p0 > 0
      | [p0, p1] \<Rightarrow>
          if p0 \<in> set [''this'', ''next''] then startsWith ''weekend'' p1 else False
      | _ \<Rightarrow> False)"

definition weekend_generate :: "string \<Rightarrow> RegExpMatchArray option \<Rightarrow> string list option" where
  "weekend_generate input matchDetails =
     (case split_ws (toLowerCase (trim input)) of
        [p0, p1] \<Rightarrow>
          if p0 \<in> set [''this'', ''next'']
          then Some [capitalizeFirstLetter p0 @ '' weekend'']
          else Some [''This weekend'', ''Next weekend'']
      | _ \<Rightarrow> Some [''This weekend'', ''Next weekend''])"

definition weekend_generator :: generator where
  "weekend_generator =
     \<lparr> pattern = Predicate weekend_pattern, generate = weekend_generate, priority = 55 \<rparr>"

text \<open>Priority 50 (lines 206-226): the start or end of a period.\<close>

definition period_pattern :: "string \<Rightarrow> bool" where
  "period_pattern input =
     (let trimmed = toLowerCase (trim input)
      in startsWith trimmed ''st'' \<or> startsWith trimmed ''end'' \<or> startsWith trimmed ''start o'')"

definition period_generate :: "string \<Rightarrow> RegExpMatchArray option \<Rightarrow> string list option" where
  "period_generate input matchDetails =
     (let trimmed = toLowerCase (trim input)
      in Some (concat (map (\<lambda>boundary.
           concat (map (\<lambda>selector.
             concat (map (\<lambda>unit.
               (let phrase = capitalizeFirstLetter boundary @ '' of '' @ selector @ '' '' @ unit
                in if startsWith (toLowerCase phrase) trimmed then [phrase] else []))
               [''week'', ''month'', ''quarter'', ''year'']))
             [''this'', ''next'']))
           [''start'', ''end''])))"

definition period_generator :: generator where
  "period_generator =
     \<lparr> pattern = Predicate period_pattern, generate = period_generate, priority = 50 \<rparr>"

text \<open>Priority 40 (lines 228-245): the names of holidays, read from the cache.\<close>

definition holiday_pattern :: "DateParser \<Rightarrow> string \<Rightarrow> bool" where
  "holiday_pattern s input =
     (if holidays_disabled s then False
      else
        (let lower = toLowerCase (trim input)
         in if length lower < 2 then False
            else list_ex (\<lambda>name. str_includes name lower) (map fst (holidayCache s))))"

definition holiday_generate ::
  "DateParser \<Rightarrow> string \<Rightarrow> RegExpMatchArray option \<Rightarrow> string list option" where
  "holiday_generate s input matchDetails =
     (if holidays_disabled s then Some []
      else
        (let lower = toLowerCase (trim input)
         in Some (take 5 (map entry_name
              (filter (\<lambda>holiday. str_includes (toLowerCase (entry_name holiday)) lower)
                 (map snd (holidayCache s)))))))"

definition holiday_generator :: "DateParser \<Rightarrow> generator" where
  "holiday_generator s =
     \<lparr> pattern = Predicate (holiday_pattern s), generate = holiday_generate s, priority = 40 \<rparr>"

text \<open>The table, in the order the source declares it (lines 33-246).\<close>

definition suggestionGenerators :: "constants \<Rightarrow> DateParser \<Rightarrow> generator list" where
  "suggestionGenerators K s =
     [numeric_generator, qualifier_generator K, weekday_generator K, weekday_week_generator K,
      month_generator K, relative_generator K, day_time_generator K, time_of_day_generator K,
      weekend_generator, period_generator, holiday_generator s]"

section \<open>\<^verbatim>\<open>getPatternSuggestions\<close> (lines 523-587)\<close>

text \<open>
  What one generator produces for an input: the body of the \<^verbatim>\<open>try\<close> up to line 558.
  \<open>None\<close> is an exception, which the \<^verbatim>\<open>catch\<close> of line 570 swallows.
\<close>

definition generatedItems :: "generator \<Rightarrow> string \<Rightarrow> string list option" where
  "generatedItems g input =
     (let trimmedInputForMatching = toLowerCase (trim input)
      in case pattern g of
           Predicate p \<Rightarrow>
             if p trimmedInputForMatching then generate g (trim input) None else Some []
         | RegExp r \<Rightarrow>
             (case r trimmedInputForMatching of
                Some m \<Rightarrow> generate g (trim input) (Some m)
              | None \<Rightarrow> Some []))"

text \<open>One turn of the loop of lines 543-577 on the set of suggestions so far.\<close>

definition run_generator :: "DateParser \<Rightarrow> string \<Rightarrow> generator \<Rightarrow> string list \<Rightarrow> string list" where
  "run_generator s input g suggestions =
     (case generatedItems g input of
        None \<Rightarrow> suggestions
      | Some items \<Rightarrow>
          if priority g = 40 \<and> holidays_disabled s then suggestions
          else fold Set_add items suggestions)"

text \<open>
  The call reads the state and writes none of it; the state after the call is returned
  with the result.
\<close>

definition getPatternSuggestions ::
  "constants \<Rightarrow> string \<Rightarrow> DateParser \<Rightarrow> string list \<times> DateParser" where
  "getPatternSuggestions K input s =
     (if trim input = [] then ([], s)
      else
        (let sortedGenerators = sort_key (\<lambda>g. - priority g) (suggestionGenerators K s)
         in (fold (run_generator s input) sortedGenerators [], s)))"

section \<open>The holiday cache\<close>

text \<open>
  A method that writes the static fields returns how it ended and the state it left: what
  was written before an exception stays written.
\<close>

datatype completion = Returned | Threw

text \<open>\<^verbatim>\<open>addHolidayToCache\<close> (lines 316-336)\<close>

definition addHolidayToCache :: "environment \<Rightarrow> HolidayData \<Rightarrow> DateParser \<Rightarrow> DateParser" where
  "addHolidayToCache env holiday s =
     (let nm = name holiday;
          lowerName = toLowerCase nm;
          d = Date_of_string env (date holiday);
          cache1 =
            (case map_of (holidayCache s) lowerName of
               None \<Rightarrow> Map_set lowerName \<lparr> entry_name = nm, dates = [d] \<rparr> (holidayCache s)
             | Some e \<Rightarrow> Map_set lowerName (e\<lparr> dates := dates e @ [d] \<rparr>) (holidayCache s));
          shortName = split_space_first lowerName;
          cache2 =
            (if length shortName > 3 then
               (case map_of cache1 shortName of
                  None \<Rightarrow> Map_set shortName \<lparr> entry_name = nm, dates = [d] \<rparr> cache1
                | Some e \<Rightarrow> Map_set shortName (e\<lparr> dates := dates e @ [d] \<rparr>) cache1)
             else cache1)
      in s\<lparr> holidayCache := cache2 \<rparr>)"

text \<open>\<^verbatim>\<open>processHolidaysForYears\<close> (lines 304-311); \<open>process_years\<close> is its loop.\<close>

fun process_years ::
  "environment \<Rightarrow> Holidays \<Rightarrow> int list \<Rightarrow> DateParser \<Rightarrow> completion \<times> DateParser" where
  "process_years env h [] s = (Returned, s)"
| "process_years env h (year # years) s =
     (case getHolidays env h year of
        None \<Rightarrow> (Threw, s)
      | Some holidays \<Rightarrow> process_years env h years (fold (addHolidayToCache env) holidays s))"

definition processHolidaysForYears ::
  "environment \<Rightarrow> int list \<Rightarrow> DateParser \<Rightarrow> completion \<times> DateParser" where
  "processHolidaysForYears env years s =
     (case holidaysInstance s of
        None \<Rightarrow> (Returned, s)
      | Some h \<Rightarrow> process_years env h years s)"

text \<open>\<^verbatim>\<open>addHolidayAliases\<close> (lines 341-349)\<close>

definition addHolidayAliases :: "(string \<times> string) list \<Rightarrow> DateParser \<Rightarrow> DateParser" where
  "addHolidayAliases aliases s =
     fold (\<lambda>(alias, official) s'.
             (let lowerAlias = toLowerCase alias
              in case map_of (holidayCache s') official of
                   Some e \<Rightarrow>
                     s'\<lparr> holidayCache :=
                          Map_set lowerAlias \<lparr> entry_name = alias, dates = dates e \<rparr>
                            (holidayCache s') \<rparr>
                 | None \<Rightarrow> s'))
          aliases s"

text \<open>
  \<^verbatim>\<open>refreshHolidayCache\<close> after its first statement (lines 287-298): clear, fill for
  two years, add the aliases.
\<close>

definition rebuildHolidayCache ::
  "environment \<Rightarrow> constants \<Rightarrow> DateParser \<Rightarrow> completion \<times> DateParser" where
  "rebuildHolidayCache env K s =
     (let s1 = s\<lparr> holidayCache := [] \<rparr>
      in case processHolidaysForYears env [currentYear s1, currentYear s1 + 1] s1 of
           (Threw, s2) \<Rightarrow> (Threw, s2)
         | (Returned, s2) \<Rightarrow> (Returned, addHolidayAliases (HOLIDAY_ALIASES K) s2))"

text \<open>
  \<^verbatim>\<open>initHolidays\<close> (lines 252-277), with the method it calls at lines 265 and 274 as
  the parameter \<open>refresh\<close>. \<^verbatim>\<open>initHolidays\<close> and \<^verbatim>\<open>refreshHolidayCache\<close> call each
  other in the source; the parameter unties the knot.
\<close>

definition initHolidays_with ::
  "(DateParser \<Rightarrow> completion \<times> DateParser) \<Rightarrow> environment \<Rightarrow> string \<Rightarrow> DateParser
     \<Rightarrow> completion \<times> DateParser" where
  "initHolidays_with refresh env locale s =
     (if locale = [] then
        (Returned, s\<lparr> holidaysInstance := None, holidayCache := [], currentLocale := [] \<rparr>)
      else
        (let attempt =
           (case Holidays_new env locale of
              None \<Rightarrow> (Threw, s)
            | Some h \<Rightarrow> refresh (s\<lparr> holidaysInstance := Some h, currentLocale := locale \<rparr>))
         in case attempt of
              (Returned, s1) \<Rightarrow> (Returned, s1)
            | (Threw, s1) \<Rightarrow>
                if locale \<noteq> ''US'' then
                  (case Holidays_new env ''US'' of
                     None \<Rightarrow> (Threw, s1)
                   | Some h \<Rightarrow>
                       refresh (s1\<lparr> holidaysInstance := Some h, currentLocale := ''US'' \<rparr>))
                else (Returned, s1)))"

text \<open>
  \<^verbatim>\<open>refreshHolidayCache\<close> (lines 282-299). Its first statement calls
  \<^verbatim>\<open>initHolidays()\<close>, with the default locale, when there is no instance; inside
  that call the instance has just been set when the refresh is reached, so the refresh
  there is \<open>rebuildHolidayCache\<close>.
\<close>

definition refreshHolidayCache ::
  "environment \<Rightarrow> constants \<Rightarrow> DateParser \<Rightarrow> completion \<times> DateParser" where
  "refreshHolidayCache env K s =
     (case holidaysInstance s of
        None \<Rightarrow>
          (case initHolidays_with (rebuildHolidayCache env K) env ''US'' s of
             (Threw, s1) \<Rightarrow> (Threw, s1)
           | (Returned, s1) \<Rightarrow> rebuildHolidayCache env K s1)
      | Some _ \<Rightarrow> rebuildHolidayCache env K s)"

definition initHolidays ::
  "environment \<Rightarrow> constants \<Rightarrow> string \<Rightarrow> DateParser \<Rightarrow> completion \<times> DateParser" where
  "initHolidays env K locale s = initHolidays_with (refreshHolidayCache env K) env locale s"

text \<open>\<^verbatim>\<open>setLocale\<close> (lines 355-366)\<close>

definition setLocale ::
  "environment \<Rightarrow> constants \<Rightarrow> string \<Rightarrow> DateParser \<Rightarrow> completion \<times> DateParser" where
  "setLocale env K locale s =
     (if locale = [] then
        (Returned, s\<lparr> holidaysInstance := None, holidayCache := [], currentLocale := [] \<rparr>)
      else if currentLocale s \<noteq> locale then initHolidays env K locale s
      else (Returned, s))"

text \<open>\<^verbatim>\<open>getCurrentLocale\<close> (lines 371-373)\<close>

definition getCurrentLocale :: "DateParser \<Rightarrow> string" where
  "getCurrentLocale s = currentLocale s"

text \<open>
  \<^verbatim>\<open>getNextUpcomingDate\<close> (lines 401-410); \<open>now\<close> is the \<^verbatim>\<open>new Date()\<close> of line
  402.
\<close>

definition getNextUpcomingDate :: "Date \<Rightarrow> Date list \<Rightarrow> Date option" where
  "getNextUpcomingDate now ds =
     (let sorted = sort ds;
          futureDate = find (\<lambda>d. d \<ge> now) sorted
      in case futureDate of
           Some d \<Rightarrow> Some d
         | None \<Rightarrow> if length sorted > 0 then Some (last sorted) else None)"

text \<open>\<^verbatim>\<open>checkForHoliday\<close> (lines 378-396)\<close>

definition checkForHoliday :: "Date \<Rightarrow> DateParser \<Rightarrow> string \<Rightarrow> Date option" where
  "checkForHoliday now s text =
     (if holidays_disabled s then None
      else
        (let cleanedText = trim (toLowerCase text)
         in case map_of (holidayCache s) cleanedText of
              Some e \<Rightarrow> getNextUpcomingDate now (dates e)
            | None \<Rightarrow>
                (case find (\<lambda>(holiday, obj).
                              str_includes cleanedText holiday \<or> str_includes holiday cleanedText)
                        (holidayCache s) of
                   Some (holiday, obj) \<Rightarrow> getNextUpcomingDate now (dates obj)
                 | None \<Rightarrow> None)))"

text \<open>\<^verbatim>\<open>getHolidayNames\<close> (lines 592-598)\<close>

definition getHolidayNames :: "DateParser \<Rightarrow> string list" where
  "getHolidayNames s =
     (if holidays_disabled s then []
      else fold Set_add (map (\<lambda>v. entry_name v) (map snd (holidayCache s))) [])"

section \<open>Parsing\<close>

text \<open>\<^verbatim>\<open>enhanceText\<close> (lines 415-437)\<close>

definition enhanceText :: "string \<Rightarrow> string" where
  "enhanceText text =
     (if text = [] then text
      else
        (let trimmedText = trim text
         in if re_year4 trimmedText then trimmedText
            else
              (let modifiedText =
                     (if re_starts_digit trimmedText then ''in '' @ trimmedText
                      else trimmedText)
               in if re_ends_digit trimmedText \<and>
                     (re_in_digits modifiedText \<or> re_all_digits trimmedText)
                  then modifiedText @ '' days''
                  else modifiedText)))"

text \<open>\<^verbatim>\<open>inputHasTimeComponent\<close> (lines 443-475)\<close>

definition dateOnlyExactMatches :: "string list" where
  "dateOnlyExactMatches = [''today'', ''tomorrow'', ''yesterday'']"

definition dateOnlyPatterns :: "(string \<Rightarrow> bool) list" where
  "dateOnlyPatterns = [re_in_n_units, re_qualified_unit]"

definition inputHasTimeComponent :: "environment \<Rightarrow> constants \<Rightarrow> string \<Rightarrow> bool" where
  "inputHasTimeComponent env K text =
     (if text = [] then False
      else
        (let lowerTrimmed = toLowerCase (trim text)
         in if list_ex (\<lambda>phrase. lowerTrimmed = toLowerCase phrase) (TIME_OF_DAY_PHRASES K)
            then True
            else if lowerTrimmed \<in> set dateOnlyExactMatches then False
            else if list_ex (\<lambda>pat. pat lowerTrimmed) dateOnlyPatterns then False
            else
              (case chrono_parse env lowerTrimmed of
                 [] \<Rightarrow> False
               | r # _ \<Rightarrow>
                   (case start r of
                      None \<Rightarrow> False
                    | Some isCertain \<Rightarrow> isCertain ''hour'' \<or> isCertain ''minute''))))"

text \<open>\<^verbatim>\<open>handleParsing\<close> (lines 480-493)\<close>

definition handleParsing :: "Date \<Rightarrow> DateParser \<Rightarrow> string \<Rightarrow> Date option \<times> string" where
  "handleParsing now s text =
     (if text = [] then (None, [])
      else
        (let holidayDate = checkForHoliday now s text;
             modifiedText = (case holidayDate of Some _ \<Rightarrow> text | None \<Rightarrow> enhanceText text)
         in (holidayDate, modifiedText)))"

text \<open>
  \<^verbatim>\<open>Number(trimmed)\<close> for a text of decimal digits, the only use in the source (line
  505).
\<close>

definition digit_value :: "char \<Rightarrow> int" where
  "digit_value c = int (of_char c) - 48"

definition Number_of_digits :: "string \<Rightarrow> int" where
  "Number_of_digits s = foldl (\<lambda>a c. 10 * a + digit_value c) 0 s"

text \<open>
  \<^verbatim>\<open>new Date(year, 0, 1)\<close> as ECMAScript defines it: a year from 0 to 99 stands for
  1900 + year; the time value is the first millisecond of 1 January of the resulting year.
  \<open>DayFromYear\<close> and \<open>TimeFromYear\<close> are the functions of that name in the language
  definition.
\<close>

definition msPerDay :: int where
  "msPerDay = 86400000"

definition DayFromYear :: "int \<Rightarrow> int" where
  "DayFromYear y =
     365 * (y - 1970) + (y - 1969) div 4 - (y - 1901) div 100 + (y - 1601) div 400"

definition TimeFromYear :: "int \<Rightarrow> Date" where
  "TimeFromYear y = msPerDay * DayFromYear y"

definition new_Date_jan1 :: "int \<Rightarrow> Date" where
  "new_Date_jan1 year =
     (let yr = (if 0 \<le> year \<and> year \<le> 99 then 1900 + year else year)
      in TimeFromYear yr)"

text \<open>\<^verbatim>\<open>parseDate\<close> (lines 498-515)\<close>

definition parseDate :: "environment \<Rightarrow> Date \<Rightarrow> DateParser \<Rightarrow> string \<Rightarrow> Date option" where
  "parseDate env now s text =
     (let trimmed = trim text
      in if re_year4 trimmed then Some (new_Date_jan1 (Number_of_digits trimmed))
         else
           (case handleParsing now s text of
              (holidayDate, modifiedText) \<Rightarrow>
                (case holidayDate of
                   Some d \<Rightarrow> Some d
                 | None \<Rightarrow> chrono_parseDate env modifiedText)))"

section \<open>Two notions for the properties\<close>

text \<open>
  The text a match of the expression of line 38 holds before its captured number: the
  matched text (index 0) without the group (index 1), which stands at its end.
\<close>

definition matched_prefix :: "RegExpMatchArray \<Rightarrow> string" where
  "matched_prefix m = take (length (fst m) - length (snd m)) (fst m)"

text \<open>
  Loading the holiday data of a locale fails, in a state whose current year is \<open>y\<close>: the
  constructor throws, or \<^verbatim>\<open>getHolidays\<close> throws for one of the two years the cache is
  built from. This is when the \<^verbatim>\<open>try\<close> block of lines 262-266 throws.
\<close>

definition loading_fails :: "environment \<Rightarrow> string \<Rightarrow> int \<Rightarrow> bool" where
  "loading_fails env locale y =
     (case Holidays_new env locale of
        None \<Rightarrow> True
      | Some h \<Rightarrow> getHolidays env h y = None \<or> getHolidays env h (y + 1) = None)"

section \<open>Instances for the examples\<close>

text \<open>
  Modelled from the spec: the tables of \<^verbatim>\<open>@/constants\<close> are not among the sources. The
  weekday names, the month names and the common strings are the ones the spec's scenarios
  show (\<^verbatim>\<open>Next week\<close>, \<^verbatim>\<open>Next Monday\<close> to \<^verbatim>\<open>Next Sunday\<close>, \<^verbatim>\<open>Today\<close>); the
  time-of-day phrases and the alias are examples. The general theorems below hold for every
  table; this one serves the concrete evaluations.
\<close>

definition example_constants :: constants where
  "example_constants =
     \<lparr> COMMON_STRINGS =
         \<lparr> WEEK = ''week'', MONTH = ''month'', YEAR = ''year'',
           TODAY = ''today'', TOMORROW = ''tomorrow'', YESTERDAY = ''yesterday'' \<rparr>,
       DAYS_OF_THE_WEEK =
         [''Monday'', ''Tuesday'', ''Wednesday'', ''Thursday'', ''Friday'', ''Saturday'',
          ''Sunday''],
       MONTHS_OF_THE_YEAR =
         [''January'', ''February'', ''March'', ''April'', ''May'', ''June'', ''July'',
          ''August'', ''September'', ''October'', ''November'', ''December''],
       TIME_OF_DAY_PHRASES = [''Morning'', ''Noon'', ''Midday'', ''Evening'', ''Midnight''],
       HOLIDAY_ALIASES = [(''Xmas'', ''christmas day'')] \<rparr>"

text \<open>
  An environment for the examples: the holiday library knows the locales \<^verbatim>\<open>US\<close> and
  \<^verbatim>\<open>GB\<close>, has two holidays a year for \<^verbatim>\<open>US\<close> and throws on \<^verbatim>\<open>getHolidays\<close>
  for \<^verbatim>\<open>GB\<close>; the external parser knows the one text \<^verbatim>\<open>3pm\<close>. \<open>example_state\<close>
  is the state after \<^verbatim>\<open>initHolidays("US")\<close> in 2026.
\<close>

definition example_environment :: environment where
  "example_environment =
     \<lparr> Holidays_new = (\<lambda>l. if l \<in> set [''US'', ''GB''] then Some (Holidays l) else None),
       getHolidays = (\<lambda>h y.
         if h = Holidays ''US'' then
           (if y = 2026 then
              Some [\<lparr> name = ''Independence Day'', date = ''2026-07-04 00:00:00'' \<rparr>,
                    \<lparr> name = ''Christmas Day'', date = ''2026-12-25 00:00:00'' \<rparr>]
            else if y = 2027 then
              Some [\<lparr> name = ''Independence Day'', date = ''2027-07-04 00:00:00'' \<rparr>,
                    \<lparr> name = ''Christmas Day'', date = ''2027-12-25 00:00:00'' \<rparr>]
            else Some [])
         else None),
       Date_of_string = (\<lambda>d.
         case map_of [(''2026-07-04 00:00:00'', 1783123200000),
                      (''2026-12-25 00:00:00'', 1798156800000),
                      (''2027-07-04 00:00:00'', 1814659200000),
                      (''2027-12-25 00:00:00'', 1829692800000)] d of
           Some t \<Rightarrow> t
         | None \<Rightarrow> 0),
       chrono_parse = (\<lambda>x. if x = ''3pm'' then [\<lparr> start = Some (\<lambda>f. f = ''hour'') \<rparr>] else []),
       chrono_parseDate = (\<lambda>x. None) \<rparr>"

definition example_state :: DateParser where
  "example_state =
     snd (initHolidays example_environment example_constants ''US'' (initial_state 2026))"

text \<open>The example environment with a holiday library whose constructor always throws.\<close>

definition broken_environment :: environment where
  "broken_environment = example_environment \<lparr> Holidays_new := (\<lambda>l. None) \<rparr>"

text \<open>
  The example environment with a holiday library that has the data of 2026 only:
  \<^verbatim>\<open>getHolidays\<close> throws for every other year.
\<close>

definition flaky_environment :: environment where
  "flaky_environment =
     example_environment
       \<lparr> getHolidays := (\<lambda>h y. if y = 2026 then getHolidays example_environment h y else None) \<rparr>"

section \<open>Facts about the string functions\<close>

lemma is_space_charToLower: "is_space (charToLower c) = is_space c"
  by (auto simp: is_space_def charToLower_def)

lemma is_digit_charToLower: "is_digit (charToLower c) = is_digit c"
  by (auto simp: is_digit_def charToLower_def)

lemma charToLower_idem: "charToLower (charToLower c) = charToLower c"
  by (auto simp: charToLower_def)

lemma toLowerCase_idem: "toLowerCase (toLowerCase x) = toLowerCase x"
  by (simp add: toLowerCase_def charToLower_idem)

lemma toLowerCase_append: "toLowerCase (x @ y) = toLowerCase x @ toLowerCase y"
  by (simp add: toLowerCase_def)

lemma length_toLowerCase: "length (toLowerCase x) = length x"
  by (simp add: toLowerCase_def)

lemma trimStart_toLowerCase: "trimStart (toLowerCase x) = toLowerCase (trimStart x)"
proof -
  have "is_space \<circ> charToLower = is_space"
    by (simp add: fun_eq_iff is_space_charToLower)
  then show ?thesis
    by (simp add: trimStart_def toLowerCase_def dropWhile_map)
qed

lemma trimEnd_toLowerCase: "trimEnd (toLowerCase x) = toLowerCase (trimEnd x)"
proof -
  have "is_space \<circ> charToLower = is_space"
    by (simp add: fun_eq_iff is_space_charToLower)
  then show ?thesis
    by (simp add: trimEnd_def toLowerCase_def dropWhile_map rev_map)
qed

lemma trim_toLowerCase: "trim (toLowerCase x) = toLowerCase (trim x)"
  by (simp add: trim_def trimStart_toLowerCase trimEnd_toLowerCase)

lemma trimEnd_Cons: "\<not> is_space c \<Longrightarrow> trimEnd (c # cs) = c # trimEnd cs"
  by (simp add: trimEnd_def dropWhile_append)

lemma trimEnd_idem: "trimEnd (trimEnd x) = trimEnd x"
  by (simp add: trimEnd_def)

lemma trimStart_trimEnd_trimStart: "trimStart (trimEnd (trimStart x)) = trimEnd (trimStart x)"
proof (cases "trimStart x")
  case Nil
  have "trimEnd [] = []" by (simp add: trimEnd_def)
  moreover have "trimStart [] = []" by (simp add: trimStart_def)
  ultimately show ?thesis using Nil by simp
next
  case (Cons c cs)
  then have "\<not> is_space c"
    unfolding trimStart_def by (metis hd_dropWhile list.sel(1) list.distinct(1))
  with Cons show ?thesis by (simp add: trimEnd_Cons trimStart_def)
qed

lemma trim_idem: "trim (trim x) = trim x"
  by (simp add: trim_def trimStart_trimEnd_trimStart trimEnd_idem)

lemma lower_trim_idem: "toLowerCase (trim (toLowerCase (trim x))) = toLowerCase (trim x)"
  by (simp add: trim_toLowerCase trim_idem toLowerCase_idem)

lemma charToLower_digit: "is_digit c \<Longrightarrow> charToLower c = c"
proof -
  have "list_all (\<lambda>c. charToLower c = c) ''0123456789''"
    by (simp add: charToLower_def)
  then show "is_digit c \<Longrightarrow> charToLower c = c"
    unfolding is_digit_def list_all_iff by blast
qed

lemma charToLower_space: "is_space c \<Longrightarrow> charToLower c = c"
proof -
  have "list_all (\<lambda>c. charToLower c = c)
          [CHR '' '', CHR 0x09, CHR 0x0A, CHR 0x0B, CHR 0x0C, CHR 0x0D]"
    by (simp add: charToLower_def)
  then show "is_space c \<Longrightarrow> charToLower c = c"
    unfolding is_space_def list_all_iff by blast
qed

lemma toLowerCase_digits: "list_all is_digit x \<Longrightarrow> toLowerCase x = x"
  by (induction x) (simp_all add: toLowerCase_def charToLower_digit)

lemma toLowerCase_spaces: "list_all is_space x \<Longrightarrow> toLowerCase x = x"
  by (induction x) (simp_all add: toLowerCase_def charToLower_space)

lemma list_all_takeWhile: "list_all P (takeWhile P x)"
  by (induction x) simp_all

lemma not_digit_space: "is_space c \<Longrightarrow> \<not> is_digit c"
proof -
  have "list_all (\<lambda>c. \<not> is_digit c)
          [CHR '' '', CHR 0x09, CHR 0x0A, CHR 0x0B, CHR 0x0C, CHR 0x0D]"
    by (simp add: is_digit_def)
  then show "is_space c \<Longrightarrow> \<not> is_digit c"
    unfolding is_space_def list_all_iff by blast
qed

section \<open>Properties of the suggestion engine\<close>

lemma distinct_Set_add: "distinct xs \<Longrightarrow> distinct (Set_add x xs)"
  by (simp add: Set_add_def)

lemma set_Set_add: "set (Set_add x xs) = insert x (set xs)"
  by (auto simp: Set_add_def)

lemma distinct_fold_Set_add: "distinct xs \<Longrightarrow> distinct (fold Set_add ys xs)"
  by (induction ys arbitrary: xs) (simp_all add: distinct_Set_add)

lemma set_fold_Set_add: "set (fold Set_add ys xs) = set ys \<union> set xs"
  by (induction ys arbitrary: xs) (auto simp: set_Set_add)

lemma distinct_run_generator: "distinct xs \<Longrightarrow> distinct (run_generator s input g xs)"
  by (simp add: run_generator_def distinct_fold_Set_add split: option.splits)

lemma distinct_fold_run_generator:
  "distinct xs \<Longrightarrow> distinct (fold (run_generator s input) gs xs)"
  by (induction gs arbitrary: xs) (simp_all add: distinct_run_generator)

text \<open>
  Claim C2. For every input, every table of constants and every state, the list that
  \<^verbatim>\<open>getPatternSuggestions\<close> returns has no string twice.
\<close>

theorem getPatternSuggestions_no_duplicates:
  "distinct (fst (getPatternSuggestions K input s))"
  by (simp add: getPatternSuggestions_def Let_def distinct_fold_run_generator)

theorem getPatternSuggestions_no_duplicates_witness:
  "distinct (fst (getPatternSuggestions example_constants ''next'' (initial_state 2026)))"
  by (rule getPatternSuggestions_no_duplicates)

lemma sorted_generators:
  "sort_key (\<lambda>g. - priority g) (suggestionGenerators K s) = suggestionGenerators K s"
  by (simp add: suggestionGenerators_def numeric_generator_def qualifier_generator_def
      weekday_generator_def weekday_week_generator_def month_generator_def
      relative_generator_def day_time_generator_def time_of_day_generator_def
      weekend_generator_def period_generator_def holiday_generator_def)

lemma set_run_generator_mono: "set acc \<subseteq> set (run_generator s input g acc)"
  by (auto simp: run_generator_def set_fold_Set_add split: option.splits)

lemma set_fold_run_generator_mono: "set acc \<subseteq> set (fold (run_generator s input) gs acc)"
proof (induction gs arbitrary: acc)
  case Nil
  then show ?case by simp
next
  case (Cons g gs)
  have "set acc \<subseteq> set (run_generator s input g acc)" by (rule set_run_generator_mono)
  also have "\<dots> \<subseteq> set (fold (run_generator s input) gs (run_generator s input g acc))"
    by (rule Cons.IH)
  finally show ?case by simp
qed

lemma indexOf_from_skip:
  "list_all (\<lambda>c. \<not> is_digit c) pre \<Longrightarrow> num \<noteq> [] \<Longrightarrow> is_digit (hd num) \<Longrightarrow>
   indexOf_from i (pre @ num) num = int (i + length pre)"
proof (induction pre arbitrary: i)
  case Nil
  then show ?case by (cases num) (simp_all add: startsWith_def)
next
  case (Cons c pre)
  from Cons.prems have "c \<noteq> hd num" by auto
  with Cons.prems(2) have "\<not> startsWith (c # pre @ num) num"
    by (cases num) (auto simp: startsWith_def)
  with Cons show ?case by simp
qed

lemma takeWhile_digits_hd: "takeWhile is_digit x \<noteq> [] \<Longrightarrow> is_digit (hd (takeWhile is_digit x))"
  by (cases x) (auto split: if_splits)

lemma numeric_prefix_eq:
  assumes "re_numeric x = Some (m0, num)"
  shows "(if startsWith (toLowerCase m0) ''in''
          then substring0 m0 (indexOf (toLowerCase m0) num) else ''in '') =
         (if matched_prefix (m0, num) = [] then ''in '' else matched_prefix (m0, num))"
proof (cases "toLowerCase (take 2 x) = ''in'' \<and>
    takeWhile is_digit (dropWhile is_space (drop 2 x)) \<noteq> []")
  case True
  define ws where "ws = takeWhile is_space (drop 2 x)"
  define p where "p = take 2 x"
  from True assms have num: "num = takeWhile is_digit (dropWhile is_space (drop 2 x))"
    and m0: "m0 = p @ ws @ num"
    by (auto simp: re_numeric_def Let_def ws_def p_def)
  from True have lp: "toLowerCase p = ''in''" by (simp add: p_def)
  from True num have ne: "num \<noteq> []" by simp
  have dig: "list_all is_digit num" unfolding num by (rule list_all_takeWhile)
  have hd: "is_digit (hd num)" using True unfolding num by (simp add: takeWhile_digits_hd)
  have sp: "list_all is_space ws" unfolding ws_def by (rule list_all_takeWhile)
  have len2: "length p = 2"
  proof -
    have "length (toLowerCase p) = 2" using lp by simp
    then show ?thesis by (simp only: length_toLowerCase)
  qed
  have low: "toLowerCase m0 = ''in'' @ ws @ num"
    using lp by (simp add: m0 toLowerCase_append toLowerCase_digits [OF dig]
        toLowerCase_spaces [OF sp])
  have nd: "list_all (\<lambda>c. \<not> is_digit c) (''in'' @ ws)"
    using sp by (auto simp: list_all_iff not_digit_space) (simp_all add: is_digit_def)
  have "indexOf_from 0 ((''in'' @ ws) @ num) num = int (0 + length (''in'' @ ws))"
    using nd ne hd by (rule indexOf_from_skip)
  then have idx: "indexOf (toLowerCase m0) num = int (2 + length ws)"
    by (simp add: low indexOf_def)
  have sw: "startsWith (toLowerCase m0) ''in''"
    by (simp add: low startsWith_def)
  have sub: "substring0 m0 (int (2 + length ws)) = p @ ws"
    using len2 by (simp add: substring0_def m0)
  have mp: "matched_prefix (m0, num) = p @ ws"
    using len2 by (simp add: matched_prefix_def m0)
  have "p @ ws \<noteq> []" using len2 by auto
  with sw idx sub mp show ?thesis by simp
next
  case False
  with assms have num: "num = takeWhile is_digit x" and m0: "m0 = num" and ne: "num \<noteq> []"
    by (auto simp: re_numeric_def Let_def split: if_splits)
  have dig: "list_all is_digit num" unfolding num by (rule list_all_takeWhile)
  have "is_digit (hd num)" using ne unfolding num by (simp add: takeWhile_digits_hd)
  with ne have "\<not> startsWith num ''in''"
    by (cases num) (auto simp: startsWith_def is_digit_def)
  then have "\<not> startsWith (toLowerCase m0) ''in''"
    by (simp add: m0 toLowerCase_digits [OF dig])
  moreover have "matched_prefix (m0, num) = []"
    by (simp add: matched_prefix_def m0)
  ultimately show ?thesis by simp
qed

lemma numeric_items:
  assumes "re_numeric (toLowerCase (trim input)) = Some m" and "\<not> re_year4 (trim input)"
  shows "generatedItems numeric_generator input =
     Some (map (\<lambda>u. capitalizeFirstLetter
                  ((if matched_prefix m = [] then ''in '' else matched_prefix m) @ snd m @ u))
             numeric_units)"
proof -
  obtain m0 num where m: "m = (m0, num)" by (cases m)
  from assms(1) have p: "(if startsWith (toLowerCase m0) ''in''
          then substring0 m0 (indexOf (toLowerCase m0) num) else ''in '') =
         (if matched_prefix (m0, num) = [] then ''in '' else matched_prefix (m0, num))"
    unfolding m by (rule numeric_prefix_eq)
  show ?thesis
    using assms p
    by (simp add: generatedItems_def numeric_generator_def numeric_generate_def m trim_idem
        Let_def comp_def)
qed

lemma numeric_year4_items:
  assumes "re_year4 (trim input)"
  shows "generatedItems numeric_generator input = Some []"
  using assms
  by (simp add: generatedItems_def numeric_generator_def numeric_generate_def trim_idem
      split: option.splits)

lemma trim_Nil: "trim [] = []"
  by (simp add: trim_def trimStart_def trimEnd_def)

text \<open>
  Claim C1, as amended. When the trimmed, lowercased input matches
  \<^verbatim>\<open>^(?:in\s*)?(\d+)\<close> and the trimmed input is not exactly four digits, the returned
  list contains the six expansions \<^verbatim>\<open>{prefix}{num} days/weeks/months/hours/minutes/years\<close>
  capitalized on their first letter, where \<^verbatim>\<open>num\<close> is the captured number and
  \<^verbatim>\<open>prefix\<close> is the matched text before the number when there is one, and the default
  \<^verbatim>\<open>in\<close> with a space when the match is the number alone. When the trimmed input is
  exactly four digits the numeric generator yields nothing and leaves the suggestions as
  they are.
\<close>

theorem numeric_suggestions:
  "(re_numeric (toLowerCase (trim input)) = Some m \<and> \<not> re_year4 (trim input) \<longrightarrow>
      (\<forall>u \<in> set numeric_units.
         capitalizeFirstLetter
           ((if matched_prefix m = [] then ''in '' else matched_prefix m) @ snd m @ u)
         \<in> set (fst (getPatternSuggestions K input s)))) \<and>
   (re_year4 (trim input) \<longrightarrow>
      generatedItems numeric_generator input = Some [] \<and>
      run_generator s input numeric_generator acc = acc)"
proof (intro conjI impI ballI)
  fix u
  assume a: "re_numeric (toLowerCase (trim input)) = Some m \<and> \<not> re_year4 (trim input)"
    and u: "u \<in> set numeric_units"
  let ?x = "capitalizeFirstLetter
      ((if matched_prefix m = [] then ''in '' else matched_prefix m) @ snd m @ u)"
  have ne: "trim input \<noteq> []"
  proof
    assume "trim input = []"
    with a show False by (simp add: re_numeric_def toLowerCase_def)
  qed
  from a have "generatedItems numeric_generator input =
     Some (map (\<lambda>u. capitalizeFirstLetter
                  ((if matched_prefix m = [] then ''in '' else matched_prefix m) @ snd m @ u))
             numeric_units)"
    by (simp add: numeric_items)
  with u have "?x \<in> set (run_generator s input numeric_generator [])"
    by (simp add: run_generator_def numeric_generator_def set_fold_Set_add)
  also have "\<dots> \<subseteq> set (fold (run_generator s input) (tl (suggestionGenerators K s))
      (run_generator s input numeric_generator []))"
    by (rule set_fold_run_generator_mono)
  also have "\<dots> = set (fst (getPatternSuggestions K input s))"
    using ne by (simp add: getPatternSuggestions_def sorted_generators)
      (simp add: suggestionGenerators_def)
  finally show "?x \<in> set (fst (getPatternSuggestions K input s))" .
next
  assume "re_year4 (trim input)"
  then show "generatedItems numeric_generator input = Some []" by (rule numeric_year4_items)
next
  assume "re_year4 (trim input)"
  then show "run_generator s input numeric_generator acc = acc"
    by (simp add: run_generator_def numeric_year4_items)
qed


theorem numeric_suggestions_witness:
  "''In 3 days'' \<in> set (fst (getPatternSuggestions example_constants ''in 3'' (initial_state 2026))) \<and>
   ''In 3 years'' \<in> set (fst (getPatternSuggestions example_constants ''in 3'' (initial_state 2026))) \<and>
   generatedItems numeric_generator ''2025'' = Some []"
proof -
  have h1: "re_numeric (toLowerCase (trim ''in 3'')) = Some (''in 3'', ''3'') \<and>
      \<not> re_year4 (trim ''in 3'')"
    by code_simp
  have h2: "re_year4 (trim ''2025'')" by code_simp
  have u: "'' days'' \<in> set numeric_units" "'' years'' \<in> set numeric_units"
    by (simp_all add: numeric_units_def)
  have c1: "capitalizeFirstLetter
      ((if matched_prefix (''in 3'', ''3'') = [] then ''in ''
        else matched_prefix (''in 3'', ''3'')) @ snd (''in 3'', ''3'') @ '' days'') = ''In 3 days''"
    by code_simp
  have c2: "capitalizeFirstLetter
      ((if matched_prefix (''in 3'', ''3'') = [] then ''in ''
        else matched_prefix (''in 3'', ''3'')) @ snd (''in 3'', ''3'') @ '' years'') = ''In 3 years''"
    by code_simp
  from numeric_suggestions [of "''in 3''" "(''in 3'', ''3'')" example_constants "initial_state 2026"] h1
  have all: "\<forall>u \<in> set numeric_units.
         capitalizeFirstLetter
           ((if matched_prefix (''in 3'', ''3'') = [] then ''in ''
             else matched_prefix (''in 3'', ''3'')) @ snd (''in 3'', ''3'') @ u)
         \<in> set (fst (getPatternSuggestions example_constants ''in 3'' (initial_state 2026)))"
    by blast
  from all u(1) c1
  have a: "''In 3 days'' \<in> set (fst (getPatternSuggestions example_constants ''in 3'' (initial_state 2026)))"
    by (metis (no_types, lifting))
  from all u(2) c2
  have b: "''In 3 years'' \<in> set (fst (getPatternSuggestions example_constants ''in 3'' (initial_state 2026)))"
    by (metis (no_types, lifting))
  from numeric_suggestions [of "''2025''"] h2
  have c: "generatedItems numeric_generator ''2025'' = Some []" by blast
  from a b c show ?thesis by simp
qed

theorem numeric_prefix_counterexample:
  "re_numeric (toLowerCase (trim ''3'')) = Some (''3'', ''3'') \<and>
   \<not> re_year4 (trim ''3'') \<and>
   matched_prefix (''3'', ''3'') = [] \<and>
   capitalizeFirstLetter (matched_prefix (''3'', ''3'') @ ''3'' @ '' days'')
     \<notin> set (fst (getPatternSuggestions example_constants ''3'' (initial_state 2026))) \<and>
   fst (getPatternSuggestions example_constants ''3'' (initial_state 2026)) =
     [''In 3 days'', ''In 3 weeks'', ''In 3 months'', ''In 3 hours'', ''In 3 minutes'',
      ''In 3 years'']"
  by code_simp

lemma holiday_generator_cong:
  assumes "holidaysInstance t = holidaysInstance s" and "holidayCache t = holidayCache s"
    and "currentLocale t = currentLocale s"
  shows "holiday_generator t = holiday_generator s"
proof -
  have d: "holidays_disabled t = holidays_disabled s"
    using assms by (simp add: holidays_disabled_def)
  have "holiday_pattern t = holiday_pattern s"
    using assms d by (simp add: fun_eq_iff holiday_pattern_def)
  moreover have "holiday_generate t = holiday_generate s"
    using assms d by (simp add: fun_eq_iff holiday_generate_def)
  ultimately show ?thesis by (simp add: holiday_generator_def)
qed

lemma run_generator_cong:
  assumes "holidaysInstance t = holidaysInstance s" and "currentLocale t = currentLocale s"
  shows "run_generator t = run_generator s"
proof -
  have d: "holidays_disabled t = holidays_disabled s"
    using assms by (simp add: holidays_disabled_def)
  show ?thesis by (simp add: fun_eq_iff run_generator_def d split: option.splits)
qed

text \<open>
  Claim C3. \<^verbatim>\<open>getPatternSuggestions\<close> is deterministic. A call leaves the state as it
  found it, so a second call with the same input, made right after the first, returns the
  same list in the same order; and the list depends on the state only through the holiday
  instance, the holiday cache and the locale: two states that agree on these three give the
  same list.
\<close>

theorem getPatternSuggestions_deterministic:
  "snd (getPatternSuggestions K input s) = s \<and>
   fst (getPatternSuggestions K input (snd (getPatternSuggestions K input s))) =
     fst (getPatternSuggestions K input s) \<and>
   (holidaysInstance t = holidaysInstance s \<and> holidayCache t = holidayCache s \<and>
    currentLocale t = currentLocale s \<longrightarrow>
      fst (getPatternSuggestions K input t) = fst (getPatternSuggestions K input s))"
proof -
  have a: "snd (getPatternSuggestions K input s) = s"
    by (simp add: getPatternSuggestions_def Let_def)
  have c: "fst (getPatternSuggestions K input t) = fst (getPatternSuggestions K input s)"
    if "holidaysInstance t = holidaysInstance s" "holidayCache t = holidayCache s"
      "currentLocale t = currentLocale s"
    using that holiday_generator_cong [OF that] run_generator_cong [OF that(1) that(3)]
    by (simp add: getPatternSuggestions_def Let_def suggestionGenerators_def)
  show ?thesis using a c by simp
qed

theorem getPatternSuggestions_deterministic_witness:
  "snd (getPatternSuggestions example_constants ''in 3'' (initial_state 2026)) =
     initial_state 2026 \<and>
   fst (getPatternSuggestions example_constants ''in 3''
          (snd (getPatternSuggestions example_constants ''in 3'' (initial_state 2026)))) =
     fst (getPatternSuggestions example_constants ''in 3'' (initial_state 2026)) \<and>
   fst (getPatternSuggestions example_constants ''in 3'' (initial_state 2031)) =
     fst (getPatternSuggestions example_constants ''in 3'' (initial_state 2026))"
  using getPatternSuggestions_deterministic
    [of example_constants "''in 3''" "initial_state 2026" "initial_state 2031"]
  by (simp add: initial_state_def)

section \<open>Properties of the holiday cache\<close>

text \<open>
  Claim C6, as amended. With the holiday cache active, for an input whose trimmed lowercase
  form has at least two characters and occurs inside some cached key, the holiday pattern
  accepts and the generator yields at most five names, each the canonical name of a cached
  entry whose lowercase form contains the input; these are added to the suggestions. When no
  cached key contains the input (also when the input contains a key) the generator yields
  nothing; and when the cache is not active it yields nothing and the suggestions stay as
  they are.
\<close>

theorem holiday_rule:
  "(\<not> holidays_disabled s \<and> 2 \<le> length (toLowerCase (trim input)) \<and>
    list_ex (\<lambda>k. str_includes k (toLowerCase (trim input))) (map fst (holidayCache s)) \<longrightarrow>
      holiday_pattern s (toLowerCase (trim input)) \<and>
      (\<exists>items.
         generatedItems (holiday_generator s) input = Some items \<and>
         run_generator s input (holiday_generator s) acc = fold Set_add items acc \<and>
         length items \<le> 5 \<and>
         (\<forall>n \<in> set items.
            n \<in> entry_name ` snd ` set (holidayCache s) \<and>
            str_includes (toLowerCase n) (toLowerCase (trim input))))) \<and>
   (\<not> list_ex (\<lambda>k. str_includes k (toLowerCase (trim input))) (map fst (holidayCache s)) \<longrightarrow>
      generatedItems (holiday_generator s) input = Some []) \<and>
   (holidays_disabled s \<longrightarrow>
      generatedItems (holiday_generator s) input = Some [] \<and>
      run_generator s input (holiday_generator s) acc = acc)"
proof (intro conjI impI)
  assume a: "\<not> holidays_disabled s \<and> 2 \<le> length (toLowerCase (trim input)) \<and>
    list_ex (\<lambda>k. str_includes k (toLowerCase (trim input))) (map fst (holidayCache s))"
  then show p: "holiday_pattern s (toLowerCase (trim input))"
    by (simp add: holiday_pattern_def lower_trim_idem Let_def)
  let ?items = "take 5 (map entry_name
              (filter (\<lambda>holiday. str_includes (toLowerCase (entry_name holiday))
                         (toLowerCase (trim input)))
                 (map snd (holidayCache s))))"
  have g: "generatedItems (holiday_generator s) input = Some ?items"
    using a p by (simp add: generatedItems_def holiday_generator_def holiday_generate_def
        trim_idem Let_def)
  have r: "run_generator s input (holiday_generator s) acc = fold Set_add ?items acc"
    using a g by (simp add: run_generator_def)
  have l: "length ?items \<le> 5" by simp
  have m: "\<forall>n \<in> set ?items.
            n \<in> entry_name ` snd ` set (holidayCache s) \<and>
            str_includes (toLowerCase n) (toLowerCase (trim input))"
  proof
    fix n assume "n \<in> set ?items"
    then have "n \<in> set (map entry_name
              (filter (\<lambda>holiday. str_includes (toLowerCase (entry_name holiday))
                         (toLowerCase (trim input)))
                 (map snd (holidayCache s))))"
      by (rule in_set_takeD)
    then show "n \<in> entry_name ` snd ` set (holidayCache s) \<and>
            str_includes (toLowerCase n) (toLowerCase (trim input))"
      by auto
  qed
  from g r l m show "\<exists>items.
         generatedItems (holiday_generator s) input = Some items \<and>
         run_generator s input (holiday_generator s) acc = fold Set_add items acc \<and>
         length items \<le> 5 \<and>
         (\<forall>n \<in> set items.
            n \<in> entry_name ` snd ` set (holidayCache s) \<and>
            str_includes (toLowerCase n) (toLowerCase (trim input)))"
    by blast
next
  assume "\<not> list_ex (\<lambda>k. str_includes k (toLowerCase (trim input))) (map fst (holidayCache s))"
  then show "generatedItems (holiday_generator s) input = Some []"
    by (simp add: generatedItems_def holiday_generator_def holiday_pattern_def
        lower_trim_idem Let_def)
next
  assume d: "holidays_disabled s"
  then show g: "generatedItems (holiday_generator s) input = Some []"
    by (simp add: generatedItems_def holiday_generator_def holiday_pattern_def)
  show "run_generator s input (holiday_generator s) acc = acc"
    using d g by (simp add: run_generator_def)
qed

theorem holiday_rule_witness:
  "holiday_pattern example_state ''christ'' \<and>
   generatedItems (holiday_generator example_state) ''Christ'' = Some [''Christmas Day'', ''Christmas Day''] \<and>
   generatedItems (holiday_generator example_state) ''zz'' = Some [] \<and>
   generatedItems (holiday_generator (initial_state 2026)) ''christ'' = Some []"
proof -
  have h: "\<not> holidays_disabled example_state \<and> 2 \<le> length (toLowerCase (trim ''Christ'')) \<and>
    list_ex (\<lambda>k. str_includes k (toLowerCase (trim ''Christ'')))
      (map fst (holidayCache example_state))"
    by code_simp
  have t: "toLowerCase (trim ''Christ'') = ''christ''" by code_simp
  have n: "\<not> list_ex (\<lambda>k. str_includes k (toLowerCase (trim ''zz'')))
      (map fst (holidayCache example_state))"
    by code_simp
  have d: "holidays_disabled (initial_state 2026)" by code_simp
  have g: "generatedItems (holiday_generator example_state) ''Christ'' =
      Some [''Christmas Day'', ''Christmas Day'']"
    by code_simp
  from holiday_rule [of example_state "''Christ''"] h t
  have a: "holiday_pattern example_state ''christ''" by simp
  from holiday_rule [of example_state "''zz''"] n
  have b: "generatedItems (holiday_generator example_state) ''zz'' = Some []" by blast
  from holiday_rule [of "initial_state 2026" "''christ''"] d
  have c: "generatedItems (holiday_generator (initial_state 2026)) ''christ'' = Some []" by blast
  from a b c g show ?thesis by simp
qed

theorem holiday_rule_counterexample:
  "\<not> holidays_disabled example_state \<and>
   2 \<le> length (toLowerCase (trim ''christmas day party'')) \<and>
   list_ex (\<lambda>k. str_includes (toLowerCase (trim ''christmas day party'')) k)
     (map fst (holidayCache example_state)) \<and>
   \<not> holiday_pattern example_state (toLowerCase (trim ''christmas day party'')) \<and>
   generatedItems (holiday_generator example_state) ''christmas day party'' = Some [] \<and>
   fst (getPatternSuggestions example_constants ''christmas day party'' example_state) = []"
  by code_simp

lemma find_sorted_Min:
  "sorted xs \<Longrightarrow> find (\<lambda>d. now \<le> d) xs = Some d \<Longrightarrow> d = Min {x \<in> set xs. now \<le> (x::int)}"
proof (induction xs)
  case Nil
  then show ?case by simp
next
  case (Cons x xs)
  show ?case
  proof (cases "now \<le> x")
    case True
    with Cons.prems have dx: "d = x" by simp
    have "Min {y \<in> set (x # xs). now \<le> y} = x"
    proof (rule Min_eqI)
      show "finite {y \<in> set (x # xs). now \<le> y}" by simp
      show "x \<in> {y \<in> set (x # xs). now \<le> y}" using True by simp
      fix y assume "y \<in> {y \<in> set (x # xs). now \<le> y}"
      then show "x \<le> y" using Cons.prems(1) by auto
    qed
    with dx show ?thesis by simp
  next
    case False
    then have eq: "{y \<in> set (x # xs). now \<le> y} = {y \<in> set xs. now \<le> y}" by auto
    from False Cons.prems have "find (\<lambda>d. now \<le> d) xs = Some d" by simp
    moreover from Cons.prems have "sorted xs" by simp
    ultimately show ?thesis using Cons.IH eq by simp
  qed
qed

lemma last_sorted_Max: "sorted xs \<Longrightarrow> xs \<noteq> [] \<Longrightarrow> last xs = Max (set (xs::int list))"
proof (induction xs)
  case Nil
  then show ?case by simp
next
  case (Cons x xs)
  show ?case
  proof (cases "xs = []")
    case True
    then show ?thesis by simp
  next
    case False
    with Cons have l: "last xs = Max (set xs)" by simp
    have "Max (set xs) \<in> set xs" using False by simp
    with Cons.prems have "x \<le> Max (set xs)" by auto
    then have "Max (insert x (set xs)) = Max (set xs)"
      using False by (simp add: max_def)
    with l False show ?thesis by simp
  qed
qed

text \<open>
  Claim C5. Resolving a list of occurrence dates against the current time \<open>now\<close>: when
  some stored date is at or after \<open>now\<close>, the result is the earliest such date; when the
  list is not empty and every stored date is before \<open>now\<close>, the result is the latest
  stored date; for the empty list the result is null.
\<close>

theorem getNextUpcomingDate_resolution:
  "((\<exists>d \<in> set ds. now \<le> d) \<longrightarrow>
      getNextUpcomingDate now ds = Some (Min {d \<in> set ds. now \<le> d})) \<and>
   (ds \<noteq> [] \<and> (\<forall>d \<in> set ds. d < now) \<longrightarrow>
      getNextUpcomingDate now ds = Some (Max (set ds))) \<and>
   getNextUpcomingDate now [] = None"
proof (intro conjI impI)
  assume "\<exists>d \<in> set ds. now \<le> d"
  then have "\<exists>d \<in> set (sort ds). now \<le> d" by simp
  then obtain d where f: "find (\<lambda>d. now \<le> d) (sort ds) = Some d"
    by (cases "find (\<lambda>d. now \<le> d) (sort ds)") (auto simp: find_None_iff)
  then have "d = Min {x \<in> set (sort ds). now \<le> x}"
    by (rule find_sorted_Min [rotated]) simp
  with f show "getNextUpcomingDate now ds = Some (Min {d \<in> set ds. now \<le> d})"
    by (simp add: getNextUpcomingDate_def)
next
  assume a: "ds \<noteq> [] \<and> (\<forall>d \<in> set ds. d < now)"
  then have "find (\<lambda>d. now \<le> d) (sort ds) = None"
    by (auto simp: find_None_iff)
  moreover have "sort ds \<noteq> []" using a by (metis length_sort length_0_conv)
  moreover have "last (sort ds) = Max (set ds)"
    using last_sorted_Max [of "sort ds"] \<open>sort ds \<noteq> []\<close> by simp
  ultimately show "getNextUpcomingDate now ds = Some (Max (set ds))"
    using a by (simp add: getNextUpcomingDate_def)
next
  show "getNextUpcomingDate now [] = None"
    by (simp add: getNextUpcomingDate_def)
qed

theorem getNextUpcomingDate_resolution_witness:
  "getNextUpcomingDate 5 [9, 3, 7] = Some 7 \<and> getNextUpcomingDate 50 [9, 3, 7] = Some 9"
proof -
  have m1: "Min {d \<in> set [9, 3, 7]. (5::int) \<le> d} = 7"
  proof -
    have "{d \<in> set [9, 3, 7]. (5::int) \<le> d} = {9, 7}" by auto
    then show ?thesis by simp
  qed
  have e: "\<exists>d \<in> set [9, 3, 7]. (5::int) \<le> d" by simp
  have a: "\<forall>d \<in> set [9, 3, 7]. d < (50::int)" by simp
  from getNextUpcomingDate_resolution [of "[9, 3, 7]" 5] e m1
  have "getNextUpcomingDate 5 [9, 3, 7] = Some 7" by simp
  moreover from getNextUpcomingDate_resolution [of "[9, 3, 7]" 50] a
  have "getNextUpcomingDate 50 [9, 3, 7] = Some 9" by simp
  ultimately show ?thesis by simp
qed

subsection \<open>Initialisation and failure\<close>

lemma addHolidayToCache_frame:
  "addHolidayToCache env h s = s\<lparr> holidayCache := holidayCache (addHolidayToCache env h s) \<rparr>"
  by (simp add: addHolidayToCache_def Let_def)

lemma fold_addHolidayToCache_frame:
  "fold (addHolidayToCache env) hs s =
     s\<lparr> holidayCache := holidayCache (fold (addHolidayToCache env) hs s) \<rparr>"
proof (induction hs arbitrary: s)
  case Nil
  then show ?case by simp
next
  case (Cons h hs)
  have "fold (addHolidayToCache env) hs (addHolidayToCache env h s) =
      (addHolidayToCache env h s)
        \<lparr> holidayCache := holidayCache (fold (addHolidayToCache env) hs (addHolidayToCache env h s)) \<rparr>"
    by (rule Cons.IH)
  also have "\<dots> = s\<lparr> holidayCache := holidayCache (fold (addHolidayToCache env) hs (addHolidayToCache env h s)) \<rparr>"
    by (subst addHolidayToCache_frame) simp
  finally show ?case by simp
qed

lemma process_years_frame:
  "snd (process_years env h ys s) = s\<lparr> holidayCache := holidayCache (snd (process_years env h ys s)) \<rparr>"
proof (induction ys arbitrary: s)
  case Nil
  then show ?case by simp
next
  case (Cons y ys)
  show ?case
  proof (cases "getHolidays env h y")
    case None
    then show ?thesis by simp
  next
    case (Some hs)
    let ?s1 = "fold (addHolidayToCache env) hs s"
    have "snd (process_years env h ys ?s1) =
        ?s1\<lparr> holidayCache := holidayCache (snd (process_years env h ys ?s1)) \<rparr>"
      by (rule Cons.IH)
    also have "\<dots> = s\<lparr> holidayCache := holidayCache (snd (process_years env h ys ?s1)) \<rparr>"
      by (subst fold_addHolidayToCache_frame) simp
    finally show ?thesis using Some by simp
  qed
qed

lemma addHolidayAliases_frame:
  "addHolidayAliases al s = s\<lparr> holidayCache := holidayCache (addHolidayAliases al s) \<rparr>"
proof (induction al arbitrary: s)
  case Nil
  then show ?case by (simp add: addHolidayAliases_def)
next
  case (Cons a al)
  obtain nm off where a: "a = (nm, off)" by (cases a)
  define s1 where "s1 = (case map_of (holidayCache s) off of
                   Some e \<Rightarrow>
                     s\<lparr> holidayCache :=
                          Map_set (toLowerCase nm) \<lparr> entry_name = nm, dates = dates e \<rparr>
                            (holidayCache s) \<rparr>
                 | None \<Rightarrow> s)"
  have s1: "s1 = s\<lparr> holidayCache := holidayCache s1 \<rparr>"
    by (simp add: s1_def split: option.splits)
  have step: "addHolidayAliases (a # al) s = addHolidayAliases al s1"
    by (simp add: addHolidayAliases_def a s1_def Let_def)
  have "addHolidayAliases al s1 = s1\<lparr> holidayCache := holidayCache (addHolidayAliases al s1) \<rparr>"
    by (rule Cons.IH)
  also have "\<dots> = s\<lparr> holidayCache := holidayCache (addHolidayAliases al s1) \<rparr>"
    by (subst s1) simp
  finally show ?case using step by simp
qed

lemma rebuildHolidayCache_Some:
  "holidaysInstance s = Some h \<Longrightarrow>
   rebuildHolidayCache env K s =
     (case process_years env h [currentYear s, currentYear s + 1] (s\<lparr> holidayCache := [] \<rparr>) of
        (Threw, s2) \<Rightarrow> (Threw, s2)
      | (Returned, s2) \<Rightarrow> (Returned, addHolidayAliases (HOLIDAY_ALIASES K) s2))"
  by (simp add: rebuildHolidayCache_def processHolidaysForYears_def Let_def
      del: process_years.simps)

lemma rebuildHolidayCache_frame:
  "snd (rebuildHolidayCache env K s) =
     s\<lparr> holidayCache := holidayCache (snd (rebuildHolidayCache env K s)) \<rparr>"
proof (cases "holidaysInstance s")
  case None
  then show ?thesis
    by (simp add: rebuildHolidayCache_def processHolidaysForYears_def Let_def)
      (subst addHolidayAliases_frame, simp)
next
  case (Some h)
  obtain c s2 where
    p: "process_years env h [currentYear s, currentYear s + 1] (s\<lparr> holidayCache := [] \<rparr>) = (c, s2)"
    by (cases "process_years env h [currentYear s, currentYear s + 1] (s\<lparr> holidayCache := [] \<rparr>)")
  have "s2 = (s\<lparr> holidayCache := [] \<rparr>)\<lparr> holidayCache := holidayCache s2 \<rparr>"
    using process_years_frame [of env h "[currentYear s, currentYear s + 1]"
        "s\<lparr> holidayCache := [] \<rparr>"]
    by (simp only: p snd_conv)
  then have s2: "s2 = s\<lparr> holidayCache := holidayCache s2 \<rparr>" by simp
  show ?thesis
  proof (cases c)
    case Returned
    have r: "rebuildHolidayCache env K s = (Returned, addHolidayAliases (HOLIDAY_ALIASES K) s2)"
      by (simp only: rebuildHolidayCache_Some [OF Some] p Returned prod.case completion.case)
    have "addHolidayAliases (HOLIDAY_ALIASES K) s2 =
        s2\<lparr> holidayCache := holidayCache (addHolidayAliases (HOLIDAY_ALIASES K) s2) \<rparr>"
      by (rule addHolidayAliases_frame)
    also have "\<dots> = s\<lparr> holidayCache := holidayCache (addHolidayAliases (HOLIDAY_ALIASES K) s2) \<rparr>"
      by (subst s2) simp
    finally show ?thesis using r by simp
  next
    case Threw
    have r: "rebuildHolidayCache env K s = (Threw, s2)"
      by (simp only: rebuildHolidayCache_Some [OF Some] p Threw prod.case completion.case)
    show ?thesis using r s2 by simp
  qed
qed

lemma rebuildHolidayCache_cache_indep:
  "rebuildHolidayCache env K (s\<lparr> holidayCache := c \<rparr>) =
   (fst (rebuildHolidayCache env K s),
    snd (rebuildHolidayCache env K s))"
  by (simp add: rebuildHolidayCache_def Let_def processHolidaysForYears_def)

lemma process_years_two:
  "fst (process_years env h [y, y'] s) = Threw \<longleftrightarrow>
     getHolidays env h y = None \<or> getHolidays env h y' = None"
  by (auto split: option.splits)

lemma rebuildHolidayCache_Threw:
  "holidaysInstance s = Some h \<Longrightarrow>
   fst (rebuildHolidayCache env K s) = Threw \<longleftrightarrow>
     getHolidays env h (currentYear s) = None \<or> getHolidays env h (currentYear s + 1) = None"
proof -
  assume i: "holidaysInstance s = Some h"
  obtain c s2 where
    p: "process_years env h [currentYear s, currentYear s + 1] (s\<lparr> holidayCache := [] \<rparr>) = (c, s2)"
    by (cases "process_years env h [currentYear s, currentYear s + 1] (s\<lparr> holidayCache := [] \<rparr>)")
  have "fst (rebuildHolidayCache env K s) = c"
    by (cases c) (simp_all only: rebuildHolidayCache_Some [OF i] p prod.case completion.case fst_conv)
  moreover have "c = Threw \<longleftrightarrow>
     getHolidays env h (currentYear s) = None \<or> getHolidays env h (currentYear s + 1) = None"
    using process_years_two [of env h "currentYear s" "currentYear s + 1" "s\<lparr> holidayCache := [] \<rparr>"]
    by (simp only: p fst_conv)
  ultimately show ?thesis by simp
qed

lemma refreshHolidayCache_instance:
  "holidaysInstance s = Some h \<Longrightarrow> refreshHolidayCache env K s = rebuildHolidayCache env K s"
  by (simp add: refreshHolidayCache_def)


lemma initHolidays_unfold:
  "locale \<noteq> [] \<Longrightarrow>
   initHolidays env K locale s =
     (case (case Holidays_new env locale of
              None \<Rightarrow> (Threw, s)
            | Some h \<Rightarrow>
                rebuildHolidayCache env K (s\<lparr> holidaysInstance := Some h, currentLocale := locale \<rparr>)) of
        (Returned, s1) \<Rightarrow> (Returned, s1)
      | (Threw, s1) \<Rightarrow>
          if locale \<noteq> ''US'' then
            (case Holidays_new env ''US'' of
               None \<Rightarrow> (Threw, s1)
             | Some h \<Rightarrow>
                 rebuildHolidayCache env K (s1\<lparr> holidaysInstance := Some h, currentLocale := ''US'' \<rparr>))
          else (Returned, s1))"
  by (auto simp: initHolidays_def initHolidays_with_def refreshHolidayCache_def Let_def
      split: option.splits prod.splits completion.splits)

text \<open>\<open>loading_fails\<close> is exactly when the \<^verbatim>\<open>try\<close> block of \<^verbatim>\<open>initHolidays\<close> throws.\<close>

lemma try_block_throws_iff:
  "fst (case Holidays_new env locale of
          None \<Rightarrow> (Threw, s)
        | Some h \<Rightarrow>
            refreshHolidayCache env K (s\<lparr> holidaysInstance := Some h, currentLocale := locale \<rparr>))
     = Threw \<longleftrightarrow> loading_fails env locale (currentYear s)"
proof (cases "Holidays_new env locale")
  case None
  then show ?thesis by (simp add: loading_fails_def)
next
  case (Some h)
  let ?t = "s\<lparr> holidaysInstance := Some h, currentLocale := locale \<rparr>"
  have "refreshHolidayCache env K ?t = rebuildHolidayCache env K ?t"
    by (rule refreshHolidayCache_instance) simp
  moreover have "fst (rebuildHolidayCache env K ?t) = Threw \<longleftrightarrow>
      getHolidays env h (currentYear s) = None \<or> getHolidays env h (currentYear s + 1) = None"
    using rebuildHolidayCache_Threw [of ?t h env K] by simp
  ultimately show ?thesis using Some by (simp add: loading_fails_def)
qed

text \<open>
  The two mutually recursive methods of the source satisfy their equations: inside
  \<^verbatim>\<open>initHolidays\<close> the refresh is always reached with an instance in place.
\<close>

lemma initHolidays_with_rebuild:
  "initHolidays_with (rebuildHolidayCache env K) env locale s = initHolidays env K locale s"
  by (auto simp: initHolidays_def initHolidays_with_def refreshHolidayCache_def Let_def
      split: option.splits prod.splits completion.splits)

lemma refreshHolidayCache_equation:
  "refreshHolidayCache env K s =
     (case holidaysInstance s of
        None \<Rightarrow>
          (case initHolidays env K ''US'' s of
             (Threw, s1) \<Rightarrow> (Threw, s1)
           | (Returned, s1) \<Rightarrow> rebuildHolidayCache env K s1)
      | Some h \<Rightarrow> rebuildHolidayCache env K s)"
  by (simp add: refreshHolidayCache_def initHolidays_with_rebuild split: option.splits)

lemma completion_not_Threw: "c \<noteq> Threw \<Longrightarrow> c = Returned"
  by (cases c) simp_all

lemma initHolidays_US_loads:
  assumes "\<not> loading_fails env ''US'' (currentYear s)"
  obtains h s' where "Holidays_new env ''US'' = Some h"
    and "rebuildHolidayCache env K (s\<lparr> holidaysInstance := Some h, currentLocale := ''US'' \<rparr>) =
      (Returned, s')"
    and "initHolidays env K ''US'' s = (Returned, s')"
proof -
  from assms obtain h where h: "Holidays_new env ''US'' = Some h"
    and g: "getHolidays env h (currentYear s) \<noteq> None" "getHolidays env h (currentYear s + 1) \<noteq> None"
    by (auto simp: loading_fails_def split: option.splits)
  let ?t = "s\<lparr> holidaysInstance := Some h, currentLocale := ''US'' \<rparr>"
  have "fst (rebuildHolidayCache env K ?t) \<noteq> Threw"
    using g rebuildHolidayCache_Threw [of ?t h env K] by simp
  then have "fst (rebuildHolidayCache env K ?t) = Returned" by (rule completion_not_Threw)
  then obtain s' where r: "rebuildHolidayCache env K ?t = (Returned, s')"
    by (cases "rebuildHolidayCache env K ?t") simp
  then have "initHolidays env K ''US'' s = (Returned, s')"
    using h by (simp add: initHolidays_unfold)
  with h r show ?thesis by (rule that)
qed

text \<open>
  Claim C7, as amended. For a non-empty locale whose holiday data fails to load,
  \<^verbatim>\<open>initHolidays\<close> catches that failure. When the locale is \<^verbatim>\<open>US\<close> the call returns
  normally, and when it was the constructor that threw, the state is left as it was. When
  the locale is not \<^verbatim>\<open>US\<close> and the data of \<^verbatim>\<open>US\<close> loads, the call returns normally
  in the very state that \<^verbatim>\<open>initHolidays("US")\<close> gives: the locale is \<^verbatim>\<open>US\<close>, the
  instance is the one made for \<^verbatim>\<open>US\<close>, and the cache is rebuilt from its data.
\<close>

theorem initHolidays_failure_handling:
  "locale \<noteq> [] \<and> loading_fails env locale (currentYear s) \<longrightarrow>
     (locale = ''US'' \<longrightarrow>
        fst (initHolidays env K locale s) = Returned \<and>
        (Holidays_new env ''US'' = None \<longrightarrow> snd (initHolidays env K locale s) = s)) \<and>
     (locale \<noteq> ''US'' \<and> \<not> loading_fails env ''US'' (currentYear s) \<longrightarrow>
        initHolidays env K locale s = initHolidays env K ''US'' s \<and>
        fst (initHolidays env K locale s) = Returned \<and>
        currentLocale (snd (initHolidays env K locale s)) = ''US'' \<and>
        holidaysInstance (snd (initHolidays env K locale s)) = Holidays_new env ''US'')"
proof (intro impI conjI; elim conjE)
  assume ne: "locale \<noteq> []" and f: "loading_fails env locale (currentYear s)"
    and us: "locale = ''US''"
  show "fst (initHolidays env K locale s) = Returned"
  proof (cases "Holidays_new env ''US''")
    case None
    then show ?thesis using us by (simp add: initHolidays_unfold)
  next
    case (Some h)
    let ?t = "s\<lparr> holidaysInstance := Some h, currentLocale := ''US'' \<rparr>"
    from f Some us have "fst (rebuildHolidayCache env K ?t) = Threw"
      using rebuildHolidayCache_Threw [of ?t h env K] by (simp add: loading_fails_def)
    then obtain s1 where "rebuildHolidayCache env K ?t = (Threw, s1)"
      by (cases "rebuildHolidayCache env K ?t") simp
    then show ?thesis using us Some by (simp add: initHolidays_unfold)
  qed
next
  assume ne: "locale \<noteq> []" and us: "locale = ''US''" and n: "Holidays_new env ''US'' = None"
  then show "snd (initHolidays env K locale s) = s"
    by (simp add: initHolidays_unfold)
next
  assume ne: "locale \<noteq> []" and f: "loading_fails env locale (currentYear s)"
    and nus: "locale \<noteq> ''US''" and ok: "\<not> loading_fails env ''US'' (currentYear s)"
  from ok obtain hU sU where hU: "Holidays_new env ''US'' = Some hU"
    and rU: "rebuildHolidayCache env K (s\<lparr> holidaysInstance := Some hU, currentLocale := ''US'' \<rparr>) =
      (Returned, sU)"
    and iU: "initHolidays env K ''US'' s = (Returned, sU)"
    by (rule initHolidays_US_loads)
  let ?tU = "s\<lparr> holidaysInstance := Some hU, currentLocale := ''US'' \<rparr>"
  have eq: "initHolidays env K locale s = (Returned, sU)"
  proof (cases "Holidays_new env locale")
    case None
    then show ?thesis using ne nus hU rU by (simp add: initHolidays_unfold)
  next
    case (Some h)
    let ?t = "s\<lparr> holidaysInstance := Some h, currentLocale := locale \<rparr>"
    from f Some have "fst (rebuildHolidayCache env K ?t) = Threw"
      using rebuildHolidayCache_Threw [of ?t h env K] by (simp add: loading_fails_def)
    then obtain s1 where a: "rebuildHolidayCache env K ?t = (Threw, s1)"
      by (cases "rebuildHolidayCache env K ?t") simp
    define c where "c = holidayCache s1"
    have "snd (rebuildHolidayCache env K ?t) =
        ?t\<lparr> holidayCache := holidayCache (snd (rebuildHolidayCache env K ?t)) \<rparr>"
      by (rule rebuildHolidayCache_frame)
    then have s1: "s1 = ?t\<lparr> holidayCache := c \<rparr>"
      unfolding a snd_conv c_def .
    have "s1\<lparr> holidaysInstance := Some hU, currentLocale := ''US'' \<rparr> =
        ?tU\<lparr> holidayCache := c \<rparr>"
      by (simp add: s1)
    then have "rebuildHolidayCache env K (s1\<lparr> holidaysInstance := Some hU, currentLocale := ''US'' \<rparr>)
        = (Returned, sU)"
      by (simp only: rebuildHolidayCache_cache_indep prod.collapse rU)
    then show ?thesis
      using ne nus Some hU a by (simp add: initHolidays_unfold)
  qed
  show "initHolidays env K locale s = initHolidays env K ''US'' s"
    using eq iU by simp
  show "fst (initHolidays env K locale s) = Returned"
    using eq by simp
  define cU where "cU = holidayCache sU"
  have "snd (rebuildHolidayCache env K ?tU) =
        ?tU\<lparr> holidayCache := holidayCache (snd (rebuildHolidayCache env K ?tU)) \<rparr>"
    by (rule rebuildHolidayCache_frame)
  then have fr: "sU = ?tU\<lparr> holidayCache := cU \<rparr>"
    unfolding rU snd_conv cU_def .
  have "currentLocale sU = ''US''" by (simp add: fr)
  then show "currentLocale (snd (initHolidays env K locale s)) = ''US''"
    using eq by simp
  have "holidaysInstance sU = Some hU" by (simp add: fr)
  then show "holidaysInstance (snd (initHolidays env K locale s)) = Holidays_new env ''US''"
    using eq hU by simp
qed

theorem initHolidays_failure_handling_witness:
  "initHolidays example_environment example_constants ''GB'' (initial_state 2026) =
     (Returned, example_state) \<and>
   initHolidays example_environment example_constants ''FR'' (initial_state 2026) =
     (Returned, example_state) \<and>
   initHolidays broken_environment example_constants ''US'' example_state =
     (Returned, example_state)"
proof -
  have h1: "''GB'' \<noteq> [] \<and> loading_fails example_environment ''GB'' (currentYear (initial_state 2026))"
    by code_simp
  have h2: "''FR'' \<noteq> [] \<and> loading_fails example_environment ''FR'' (currentYear (initial_state 2026))"
    by code_simp
  have h3: "''US'' \<noteq> [] \<and> loading_fails broken_environment ''US'' (currentYear example_state)"
    by code_simp
  have ok: "\<not> loading_fails example_environment ''US'' (currentYear (initial_state 2026))"
    by code_simp
  have n1: "''GB'' \<noteq> ''US''" and n2: "''FR'' \<noteq> ''US''" by simp_all
  have n3: "Holidays_new broken_environment ''US'' = None" by code_simp
  have e: "initHolidays example_environment example_constants ''US'' (initial_state 2026) =
      (Returned, example_state)"
    by code_simp
  from initHolidays_failure_handling
    [of "''GB''" example_environment "initial_state 2026" example_constants] h1 ok n1 e
  have a: "initHolidays example_environment example_constants ''GB'' (initial_state 2026) =
     (Returned, example_state)" by simp
  from initHolidays_failure_handling
    [of "''FR''" example_environment "initial_state 2026" example_constants] h2 ok n2 e
  have b: "initHolidays example_environment example_constants ''FR'' (initial_state 2026) =
     (Returned, example_state)" by simp
  from initHolidays_failure_handling
    [of "''US''" broken_environment example_state example_constants] h3 n3
  have "fst (initHolidays broken_environment example_constants ''US'' example_state) = Returned \<and>
    snd (initHolidays broken_environment example_constants ''US'' example_state) = example_state"
    by simp
  then have c: "initHolidays broken_environment example_constants ''US'' example_state =
     (Returned, example_state)"
    by (metis prod.collapse)
  from a b c show ?thesis by simp
qed

theorem initHolidays_failure_counterexample:
  "''FR'' \<noteq> [] \<and>
   loading_fails broken_environment ''FR'' (currentYear (initial_state 2026)) \<and>
   initHolidays broken_environment example_constants ''FR'' (initial_state 2026) =
     (Threw, initial_state 2026) \<and>
   loading_fails flaky_environment ''US'' (currentYear example_state) \<and>
   fst (initHolidays flaky_environment example_constants ''US'' example_state) = Returned \<and>
   holidayCache (snd (initHolidays flaky_environment example_constants ''US'' example_state)) \<noteq>
     holidayCache example_state"
  by code_simp

section \<open>Properties of parsing\<close>

lemma re_all_digits_ends: "re_all_digits t \<Longrightarrow> re_ends_digit t"
proof -
  assume a: "re_all_digits t"
  then have "t \<noteq> []" and "list_all is_digit t" by (simp_all add: re_all_digits_def)
  then have "rev t \<noteq> []" and "list_all is_digit (rev t)" by (simp_all add: list_all_iff)
  then show ?thesis by (cases "rev t") (simp_all add: re_ends_digit_def)
qed

lemma re_ends_digit_drop: "re_ends_digit (drop n t) \<Longrightarrow> re_ends_digit t"
proof -
  assume a: "re_ends_digit (drop n t)"
  then have ne: "drop n t \<noteq> []" by (auto simp: re_ends_digit_def)
  from a have "is_digit (last (drop n t))"
    by (cases "rev (drop n t)") (auto simp: re_ends_digit_def last_rev dest: arg_cong [where f = rev])
  with ne have "is_digit (last t)" by simp
  moreover from ne have "t \<noteq> []" by auto
  ultimately show ?thesis
    by (cases t rule: rev_cases) (simp_all add: re_ends_digit_def)
qed

lemma append_days_guard:
  assumes "re_in_digits (if re_starts_digit t then ''in '' @ t else t) \<or> re_all_digits t"
  shows "re_ends_digit t"
proof (cases "re_all_digits t")
  case True
  then show ?thesis by (rule re_all_digits_ends)
next
  case False
  with assms have m: "re_in_digits (if re_starts_digit t then ''in '' @ t else t)" by simp
  show ?thesis
  proof (cases "re_starts_digit t")
    case True
    with m have "re_all_digits t" by (simp add: re_in_digits_def)
    then show ?thesis by (rule re_all_digits_ends)
  next
    case False
    with m have "re_all_digits (drop 3 t)" by (simp add: re_in_digits_def)
    then have "re_ends_digit (drop 3 t)" by (rule re_all_digits_ends)
    then show ?thesis by (rule re_ends_digit_drop)
  qed
qed

text \<open>
  Claim C8. \<^verbatim>\<open>enhanceText\<close> returns the trimmed text unchanged when it is exactly
  four digits. Otherwise the trimmed text gets \<^verbatim>\<open>in\<close> and a space in front when it
  starts with a digit, and \<^verbatim>\<open>days\<close> after a space at the end exactly when the text so
  prefixed matches \<^verbatim>\<open>in {digits}\<close> or the trimmed text is all digits; the test of
  line 431 that the trimmed text ends with a digit follows from either. The text
  \<^verbatim>\<open>5\<close> becomes \<^verbatim>\<open>in 5 days\<close>.
\<close>

theorem enhanceText_rewrite:
  "enhanceText text =
     (let t = trim text;
          prefixed = (if re_starts_digit t then ''in '' @ t else t)
      in if re_year4 t then t
         else if re_in_digits prefixed \<or> re_all_digits t then prefixed @ '' days''
         else prefixed) \<and>
   enhanceText ''5'' = ''in 5 days''"
proof
  show "enhanceText text =
     (let t = trim text;
          prefixed = (if re_starts_digit t then ''in '' @ t else t)
      in if re_year4 t then t
         else if re_in_digits prefixed \<or> re_all_digits t then prefixed @ '' days''
         else prefixed)"
  proof (cases "text = []")
    case True
    then show ?thesis
      by (simp add: enhanceText_def trim_def trimStart_def trimEnd_def re_year4_def
          re_starts_digit_def re_in_digits_def re_all_digits_def startsWith_def)
  next
    case False
    then show ?thesis
      using append_days_guard [of "trim text"]
      by (auto simp: enhanceText_def Let_def)
  qed
  show "enhanceText ''5'' = ''in 5 days''"
    by (simp add: enhanceText_def trim_def trimStart_def trimEnd_def re_year4_def
        re_starts_digit_def re_ends_digit_def re_in_digits_def re_all_digits_def
        startsWith_def is_digit_def is_space_def)
qed

theorem enhanceText_rewrite_witness:
  "enhanceText ''in 7'' = ''in 7 days'' \<and> enhanceText ''5'' = ''in 5 days''"
proof -
  have t: "trim ''in 7'' = ''in 7''"
    by (simp add: trim_def trimStart_def trimEnd_def is_space_def)
  have "enhanceText ''in 7'' = ''in 7 days''"
    using enhanceText_rewrite [of "''in 7''"]
    by (simp add: t re_year4_def re_starts_digit_def re_in_digits_def re_all_digits_def
        startsWith_def is_digit_def)
  then show ?thesis using enhanceText_rewrite [of "''in 7''"] by simp
qed

lemma takeWhile_run:
  "list_all P n \<Longrightarrow> (case rest of [] \<Rightarrow> True | c # _ \<Rightarrow> \<not> P c) \<Longrightarrow>
   takeWhile P (n @ rest) = n \<and> dropWhile P (n @ rest) = rest"
  by (cases rest) (simp_all add: list_all_iff takeWhile_append2 dropWhile_append2)

lemma re_in_n_units_shape:
  assumes "n \<noteq> []" and "list_all is_digit n" and "ws \<noteq> []" and "list_all is_space ws"
    and "u \<in> set [''day'', ''days'', ''week'', ''weeks'', ''year'', ''years'']"
  shows "re_in_n_units (''in '' @ n @ ws @ u)"
proof -
  from assms(3,4) have "case ws @ u of [] \<Rightarrow> True | c # _ \<Rightarrow> \<not> is_digit c"
    by (cases ws) (simp_all add: not_digit_space)
  with assms(2) have d: "takeWhile is_digit (n @ ws @ u) = n \<and> dropWhile is_digit (n @ ws @ u) = ws @ u"
    by (rule takeWhile_run)
  from assms(5) have "case u of [] \<Rightarrow> True | c # _ \<Rightarrow> \<not> is_space c"
    by (auto simp: is_space_def)
  with assms(4) have w: "takeWhile is_space (ws @ u) = ws \<and> dropWhile is_space (ws @ u) = u"
    by (rule takeWhile_run)
  from assms(5) have l: "toLowerCase u = u"
    by (auto simp: toLowerCase_def charToLower_def)
  have i: "toLowerCase (take 3 (''in '' @ n @ ws @ u)) = ''in ''"
    by (simp add: toLowerCase_def charToLower_def)
  have dr: "drop 3 (''in '' @ n @ ws @ u) = n @ ws @ u" by simp
  show ?thesis
    unfolding re_in_n_units_def Let_def i dr
    using d w l assms(1,3,5) by simp
qed

lemma re_alt_i_hit:
  "q \<in> set alts \<Longrightarrow> toLowerCase q = q \<Longrightarrow>
   list_all (\<lambda>a. length a = length q) alts \<Longrightarrow> re_alt_i alts (q @ r) = Some q"
proof (induction alts)
  case Nil
  then show ?case by simp
next
  case (Cons a alts)
  show ?case
  proof (cases "a = q")
    case True
    with Cons.prems show ?thesis by (simp add: re_alt_i_def)
  next
    case False
    with Cons.prems have "length a = length q" by simp
    with False Cons.prems have "toLowerCase (take (length a) (q @ r)) \<noteq> a" by auto
    moreover from False Cons.prems have "re_alt_i alts (q @ r) = Some q"
      using Cons.IH by simp
    ultimately show ?thesis by (simp add: re_alt_i_def)
  qed
qed

lemma re_qualified_unit_shape:
  assumes "q \<in> set [''next'', ''last'', ''this'']" and "ws \<noteq> []" and "list_all is_space ws"
    and "u \<in> set [''day'', ''week'', ''month'', ''year'']"
  shows "re_qualified_unit (q @ ws @ u)"
proof -
  from assms(1) have lq: "toLowerCase q = q" and len: "length q = 4"
    by (auto simp: toLowerCase_def charToLower_def)
  from assms(1) lq have a: "re_alt_i [''next'', ''last'', ''this''] (q @ ws @ u) = Some q"
    by (rule re_alt_i_hit) (simp add: len)
  from assms(4) have "case u of [] \<Rightarrow> True | c # _ \<Rightarrow> \<not> is_space c"
    by (auto simp: is_space_def)
  with assms(3) have w: "takeWhile is_space (ws @ u) = ws \<and> dropWhile is_space (ws @ u) = u"
    by (rule takeWhile_run)
  from assms(4) have l: "toLowerCase u = u"
    by (auto simp: toLowerCase_def charToLower_def)
  show ?thesis
    unfolding re_qualified_unit_def a
    using w l assms(2,4) by simp
qed

text \<open>
  Claim C9. \<^verbatim>\<open>inputHasTimeComponent\<close> returns false for the empty text; true for a
  non-empty text whose trimmed form equals, without regard to case, a configured
  time-of-day phrase; and, for a text that is no such phrase, false when its trimmed
  lowercase form is \<^verbatim>\<open>today\<close>, \<^verbatim>\<open>tomorrow\<close> or \<^verbatim>\<open>yesterday\<close>, or matches one of
  the two date-only patterns, that is, has the shape \<^verbatim>\<open>in {N} days/weeks/years\<close> or
  \<^verbatim>\<open>{next|last|this} {day|week|month|year}\<close>. All this holds whatever the external
  parser would answer; in every other case the result is what the parser's first result
  says of the certainty of its hour or minute.
\<close>

theorem inputHasTimeComponent_cases:
  "(text = [] \<longrightarrow> \<not> inputHasTimeComponent env K text) \<and>
   (text \<noteq> [] \<and>
    list_ex (\<lambda>phrase. toLowerCase (trim text) = toLowerCase phrase) (TIME_OF_DAY_PHRASES K) \<longrightarrow>
      inputHasTimeComponent env K text) \<and>
   (\<not> list_ex (\<lambda>phrase. toLowerCase (trim text) = toLowerCase phrase) (TIME_OF_DAY_PHRASES K) \<and>
    toLowerCase (trim text) \<in> set [''today'', ''tomorrow'', ''yesterday''] \<longrightarrow>
      \<not> inputHasTimeComponent env K text) \<and>
   (\<not> list_ex (\<lambda>phrase. toLowerCase (trim text) = toLowerCase phrase) (TIME_OF_DAY_PHRASES K) \<and>
    (re_in_n_units (toLowerCase (trim text)) \<or> re_qualified_unit (toLowerCase (trim text))) \<longrightarrow>
      \<not> inputHasTimeComponent env K text) \<and>
   (\<not> list_ex (\<lambda>phrase. toLowerCase (trim text) = toLowerCase phrase) (TIME_OF_DAY_PHRASES K) \<and>
    n \<noteq> [] \<and> list_all is_digit n \<and> ws \<noteq> [] \<and> list_all is_space ws \<and>
    u \<in> set [''day'', ''days'', ''week'', ''weeks'', ''year'', ''years''] \<and>
    toLowerCase (trim text) = ''in '' @ n @ ws @ u \<longrightarrow>
      \<not> inputHasTimeComponent env K text) \<and>
   (\<not> list_ex (\<lambda>phrase. toLowerCase (trim text) = toLowerCase phrase) (TIME_OF_DAY_PHRASES K) \<and>
    q \<in> set [''next'', ''last'', ''this''] \<and> ws \<noteq> [] \<and> list_all is_space ws \<and>
    v \<in> set [''day'', ''week'', ''month'', ''year''] \<and>
    toLowerCase (trim text) = q @ ws @ v \<longrightarrow>
      \<not> inputHasTimeComponent env K text) \<and>
   (text \<noteq> [] \<and>
    \<not> list_ex (\<lambda>phrase. toLowerCase (trim text) = toLowerCase phrase) (TIME_OF_DAY_PHRASES K) \<and>
    toLowerCase (trim text) \<notin> set [''today'', ''tomorrow'', ''yesterday''] \<and>
    \<not> re_in_n_units (toLowerCase (trim text)) \<and>
    \<not> re_qualified_unit (toLowerCase (trim text)) \<longrightarrow>
      inputHasTimeComponent env K text =
        (case chrono_parse env (toLowerCase (trim text)) of
           [] \<Rightarrow> False
         | r # _ \<Rightarrow>
             (case start r of
                None \<Rightarrow> False
              | Some isCertain \<Rightarrow> isCertain ''hour'' \<or> isCertain ''minute'')))"
proof (intro conjI impI; (elim conjE)?)
  show "text = [] \<Longrightarrow> \<not> inputHasTimeComponent env K text"
    by (simp add: inputHasTimeComponent_def)
next
  show "text \<noteq> [] \<Longrightarrow>
    list_ex (\<lambda>phrase. toLowerCase (trim text) = toLowerCase phrase) (TIME_OF_DAY_PHRASES K) \<Longrightarrow>
    inputHasTimeComponent env K text"
    by (simp add: inputHasTimeComponent_def)
next
  show "\<not> list_ex (\<lambda>phrase. toLowerCase (trim text) = toLowerCase phrase) (TIME_OF_DAY_PHRASES K) \<Longrightarrow>
    toLowerCase (trim text) \<in> set [''today'', ''tomorrow'', ''yesterday''] \<Longrightarrow>
    \<not> inputHasTimeComponent env K text"
    by (simp add: inputHasTimeComponent_def dateOnlyExactMatches_def Let_def)
next
  show "\<not> list_ex (\<lambda>phrase. toLowerCase (trim text) = toLowerCase phrase) (TIME_OF_DAY_PHRASES K) \<Longrightarrow>
    re_in_n_units (toLowerCase (trim text)) \<or> re_qualified_unit (toLowerCase (trim text)) \<Longrightarrow>
    \<not> inputHasTimeComponent env K text"
    by (auto simp: inputHasTimeComponent_def dateOnlyPatterns_def Let_def)
next
  assume np: "\<not> list_ex (\<lambda>phrase. toLowerCase (trim text) = toLowerCase phrase) (TIME_OF_DAY_PHRASES K)"
    and h: "n \<noteq> []" "list_all is_digit n" "ws \<noteq> []" "list_all is_space ws"
    "u \<in> set [''day'', ''days'', ''week'', ''weeks'', ''year'', ''years'']"
    and t: "toLowerCase (trim text) = ''in '' @ n @ ws @ u"
  from h have "re_in_n_units (''in '' @ n @ ws @ u)"
    by (rule re_in_n_units_shape)
  then have "re_in_n_units (toLowerCase (trim text))"
    by (simp only: t)
  with np show "\<not> inputHasTimeComponent env K text"
    by (auto simp: inputHasTimeComponent_def dateOnlyPatterns_def Let_def)
next
  assume np: "\<not> list_ex (\<lambda>phrase. toLowerCase (trim text) = toLowerCase phrase) (TIME_OF_DAY_PHRASES K)"
    and h: "q \<in> set [''next'', ''last'', ''this'']" "ws \<noteq> []" "list_all is_space ws"
    "v \<in> set [''day'', ''week'', ''month'', ''year'']"
    and t: "toLowerCase (trim text) = q @ ws @ v"
  from h have "re_qualified_unit (q @ ws @ v)"
    by (rule re_qualified_unit_shape)
  then have "re_qualified_unit (toLowerCase (trim text))"
    by (simp only: t)
  with np show "\<not> inputHasTimeComponent env K text"
    by (auto simp: inputHasTimeComponent_def dateOnlyPatterns_def Let_def)
next
  show "text \<noteq> [] \<Longrightarrow>
    \<not> list_ex (\<lambda>phrase. toLowerCase (trim text) = toLowerCase phrase) (TIME_OF_DAY_PHRASES K) \<Longrightarrow>
    toLowerCase (trim text) \<notin> set [''today'', ''tomorrow'', ''yesterday''] \<Longrightarrow>
    \<not> re_in_n_units (toLowerCase (trim text)) \<Longrightarrow>
    \<not> re_qualified_unit (toLowerCase (trim text)) \<Longrightarrow>
      inputHasTimeComponent env K text =
        (case chrono_parse env (toLowerCase (trim text)) of
           [] \<Rightarrow> False
         | r # _ \<Rightarrow>
             (case start r of
                None \<Rightarrow> False
              | Some isCertain \<Rightarrow> isCertain ''hour'' \<or> isCertain ''minute''))"
    by (simp add: inputHasTimeComponent_def dateOnlyPatterns_def dateOnlyExactMatches_def Let_def)
qed

theorem inputHasTimeComponent_cases_witness:
  "\<not> inputHasTimeComponent example_environment example_constants [] \<and>
   inputHasTimeComponent example_environment example_constants '' NOON '' \<and>
   \<not> inputHasTimeComponent example_environment example_constants ''Tomorrow'' \<and>
   \<not> inputHasTimeComponent example_environment example_constants ''next week'' \<and>
   \<not> inputHasTimeComponent example_environment example_constants ''in 3 days'' \<and>
   inputHasTimeComponent example_environment example_constants ''3pm''"
proof -
  note T = inputHasTimeComponent_cases [of _ example_environment example_constants]
  have a: "\<not> inputHasTimeComponent example_environment example_constants []"
    using T [of "[]"] by simp
  have "'' NOON '' \<noteq> [] \<and>
    list_ex (\<lambda>phrase. toLowerCase (trim '' NOON '') = toLowerCase phrase)
      (TIME_OF_DAY_PHRASES example_constants)"
    by code_simp
  then have b: "inputHasTimeComponent example_environment example_constants '' NOON ''"
    using T [of "'' NOON ''"] by blast
  have "\<not> list_ex (\<lambda>phrase. toLowerCase (trim ''Tomorrow'') = toLowerCase phrase)
      (TIME_OF_DAY_PHRASES example_constants) \<and>
    toLowerCase (trim ''Tomorrow'') \<in> set [''today'', ''tomorrow'', ''yesterday'']"
    by code_simp
  then have c: "\<not> inputHasTimeComponent example_environment example_constants ''Tomorrow''"
    using T [of "''Tomorrow''"] by blast
  have "\<not> list_ex (\<lambda>phrase. toLowerCase (trim ''next week'') = toLowerCase phrase)
      (TIME_OF_DAY_PHRASES example_constants) \<and>
    ''next'' \<in> set [''next'', ''last'', ''this''] \<and> '' '' \<noteq> [] \<and> list_all is_space '' '' \<and>
    ''week'' \<in> set [''day'', ''week'', ''month'', ''year''] \<and>
    toLowerCase (trim ''next week'') = ''next'' @ '' '' @ ''week''"
    by code_simp
  then have d: "\<not> inputHasTimeComponent example_environment example_constants ''next week''"
    using T [of "''next week''" _ "'' ''" _ "''next''" "''week''"]
    by blast
  have "\<not> list_ex (\<lambda>phrase. toLowerCase (trim ''in 3 days'') = toLowerCase phrase)
      (TIME_OF_DAY_PHRASES example_constants) \<and>
    ''3'' \<noteq> [] \<and> list_all is_digit ''3'' \<and> '' '' \<noteq> [] \<and> list_all is_space '' '' \<and>
    ''days'' \<in> set [''day'', ''days'', ''week'', ''weeks'', ''year'', ''years''] \<and>
    toLowerCase (trim ''in 3 days'') = ''in '' @ ''3'' @ '' '' @ ''days''"
    by code_simp
  then have e: "\<not> inputHasTimeComponent example_environment example_constants ''in 3 days''"
    using T [of "''in 3 days''" "''3''" "'' ''" "''days''"]
    by blast
  have "''3pm'' \<noteq> [] \<and>
    \<not> list_ex (\<lambda>phrase. toLowerCase (trim ''3pm'') = toLowerCase phrase)
      (TIME_OF_DAY_PHRASES example_constants) \<and>
    toLowerCase (trim ''3pm'') \<notin> set [''today'', ''tomorrow'', ''yesterday''] \<and>
    \<not> re_in_n_units (toLowerCase (trim ''3pm'')) \<and>
    \<not> re_qualified_unit (toLowerCase (trim ''3pm''))"
    by code_simp
  moreover have "(case chrono_parse example_environment (toLowerCase (trim ''3pm'')) of
           [] \<Rightarrow> False
         | r # _ \<Rightarrow>
             (case start r of
                None \<Rightarrow> False
              | Some isCertain \<Rightarrow> isCertain ''hour'' \<or> isCertain ''minute''))"
    by code_simp
  ultimately have f: "inputHasTimeComponent example_environment example_constants ''3pm''"
    using T [of "''3pm''"] by blast
  from a b c d e f show ?thesis by simp
qed

lemma parseDate_year4:
  "re_year4 (trim text) \<Longrightarrow>
   parseDate env now s text = Some (new_Date_jan1 (Number_of_digits (trim text)))"
  by (simp add: parseDate_def)

lemma new_Date_jan1_from_100: "100 \<le> y \<Longrightarrow> new_Date_jan1 y = TimeFromYear y"
  by (simp add: new_Date_jan1_def)

lemma new_Date_jan1_below_100:
  "0 \<le> y \<Longrightarrow> y \<le> 99 \<Longrightarrow> new_Date_jan1 y = TimeFromYear (1900 + y)"
  by (simp add: new_Date_jan1_def)

text \<open>
  Claim C4. For a text whose trimmed form is exactly four digits, \<^verbatim>\<open>parseDate\<close>
  returns \<^verbatim>\<open>new Date(year, 0, 1)\<close> without reading the state, the clock or the external
  parser (\<open>parseDate_year4\<close>), and for a year from 100 on that is 1 January of the year
  (\<open>new_Date_jan1_from_100\<close>): \<^verbatim>\<open>2027\<close> gives 1 January 2027. For the four-digit
  texts \<^verbatim>\<open>0000\<close> to \<^verbatim>\<open>0099\<close> the constructor adds 1900: \<^verbatim>\<open>0027\<close> gives
  1 January 1927, which is not 1 January of the year 27.
\<close>

theorem parseDate_two_digit_year:
  "parseDate env now s ''0027'' = Some (TimeFromYear 1927) \<and>
   TimeFromYear 1927 \<noteq> TimeFromYear 27 \<and>
   parseDate env now s ''2027'' = Some (TimeFromYear 2027)"
proof -
  have t1: "trim ''0027'' = ''0027''" and t2: "trim ''2027'' = ''2027''"
    by (simp_all add: trim_def trimStart_def trimEnd_def is_space_def)
  have y1: "re_year4 ''0027''" and y2: "re_year4 ''2027''"
    by (simp_all add: re_year4_def is_digit_def)
  have n1: "Number_of_digits ''0027'' = 27" and n2: "Number_of_digits ''2027'' = 2027"
    by (simp_all add: Number_of_digits_def digit_value_def)
  have a: "parseDate env now s ''0027'' = Some (TimeFromYear 1927)"
    using parseDate_year4 [of "''0027''" env now s] new_Date_jan1_below_100 [of 27]
    by (simp add: t1 y1 n1)
  have b: "parseDate env now s ''2027'' = Some (TimeFromYear 2027)"
    using parseDate_year4 [of "''2027''" env now s] new_Date_jan1_from_100 [of 2027]
    by (simp add: t2 y2 n2)
  have c: "TimeFromYear 1927 \<noteq> TimeFromYear 27"
    by (simp add: TimeFromYear_def DayFromYear_def msPerDay_def)
  from a b c show ?thesis by simp
qed

section \<open>The initial state\<close>

text \<open>
  Claim C10. In the initial state the locale is already \<^verbatim>\<open>US\<close> while there is no
  holiday instance and the cache is empty. A first \<^verbatim>\<open>setLocale("US")\<close> returns with
  the state unchanged, whatever the holiday library would do; in that state the holiday
  generator yields nothing and adds nothing to the suggestions, \<^verbatim>\<open>checkForHoliday\<close>
  returns null so that \<^verbatim>\<open>parseDate\<close> goes from the year test straight to the
  enhanced text and the external parser, \<^verbatim>\<open>getHolidayNames\<close> returns the empty list,
  and \<^verbatim>\<open>getCurrentLocale\<close> reports \<^verbatim>\<open>US\<close>.
\<close>

theorem initial_state_setLocale_US:
  "setLocale env K ''US'' (initial_state y) = (Returned, initial_state y) \<and>
   getCurrentLocale (initial_state y) = ''US'' \<and>
   holidaysInstance (initial_state y) = None \<and>
   holidayCache (initial_state y) = [] \<and>
   generatedItems (holiday_generator (initial_state y)) input = Some [] \<and>
   run_generator (initial_state y) input (holiday_generator (initial_state y)) acc = acc \<and>
   checkForHoliday now (initial_state y) text = None \<and>
   parseDate env now (initial_state y) text =
     (if re_year4 (trim text) then Some (new_Date_jan1 (Number_of_digits (trim text)))
      else chrono_parseDate env (enhanceText text)) \<and>
   getHolidayNames (initial_state y) = []"
proof -
  have d: "holidays_disabled (initial_state y)"
    by (simp add: holidays_disabled_def initial_state_def)
  have g: "generatedItems (holiday_generator (initial_state y)) input = Some []"
    using d by (simp add: generatedItems_def holiday_generator_def holiday_pattern_def)
  have c: "checkForHoliday now (initial_state y) text = None"
    using d by (simp add: checkForHoliday_def)
  have e: "enhanceText [] = []" by (simp add: enhanceText_def)
  have p: "parseDate env now (initial_state y) text =
     (if re_year4 (trim text) then Some (new_Date_jan1 (Number_of_digits (trim text)))
      else chrono_parseDate env (enhanceText text))"
    using c e by (simp add: parseDate_def handleParsing_def Let_def)
  have s: "setLocale env K ''US'' (initial_state y) = (Returned, initial_state y)"
    by (simp add: setLocale_def initial_state_def)
  show ?thesis
    using d g c p s
    by (simp add: run_generator_def getHolidayNames_def getCurrentLocale_def)
      (simp add: initial_state_def)
qed


theorem initial_state_setLocale_US_witness:
  "setLocale \<lparr> Holidays_new = (\<lambda>l. None), getHolidays = (\<lambda>h y. None),
               Date_of_string = (\<lambda>d. 0), chrono_parse = (\<lambda>x. []),
               chrono_parseDate = (\<lambda>x. None) \<rparr>
     example_constants ''US'' (initial_state 2026) = (Returned, initial_state 2026) \<and>
   getHolidayNames (initial_state 2026) = [] \<and>
   getCurrentLocale (initial_state 2026) = ''US''"
  using initial_state_setLocale_US
    [of "\<lparr> Holidays_new = (\<lambda>l. None), getHolidays = (\<lambda>h y. None),
            Date_of_string = (\<lambda>d. 0), chrono_parse = (\<lambda>x. []),
            chrono_parseDate = (\<lambda>x. None) \<rparr>" example_constants 2026]
  by simp

end
